theory Spec2Isabelle
  imports Complex_Main "HOL-Library.Word"
begin

section \<open>Data model\<close>

text \<open>
  Python values that the adapters move around untyped (a JSON field, a TSV cell, a
  label): a string, a number, a boolean or \<open>None\<close>. A Python float is modelled by the
  real number it denotes. JSON arrays and objects, which no adapter expects as the value
  of a field, are left out.
\<close>

datatype pyval = PStr string | PInt int | PFloat real | PBool bool | PNone

text \<open>The exceptions the modelled code can raise.\<close>

datatype error = KeyError | ValueError | IndexError | TypeError | ZeroDivisionError
  | InvalidArgumentError | NotFoundError | TokenizationError | LabelNotFoundError

text \<open>\<open>InputExample\<close>: the four attributes set by its constructor.\<close>

record input_example =
  guid :: string
  text_a :: pyval
  text_b :: pyval
  label :: pyval

text \<open>
  A list of examples holds \<open>InputExample\<close> objects and \<open>PaddingInputExample\<close> objects,
  the latter a class without attributes.
\<close>

datatype example = Example input_example | PaddingInputExample

section \<open>Batch aligner\<close>

text \<open>
  The loop of \<open>main\<close> in run_classifier.py:
  \<^verbatim>\<open>while len(eval_examples) % FLAGS.eval_batch_size != 0:
    eval_examples.append(PaddingInputExample())\<close>
  The batch size is an integer flag; \<open>%\<close> by zero raises. Python's \<open>%\<close> takes the sign
  of the divisor, as \<open>mod\<close> on \<open>int\<close> does.
\<close>

function align :: "example list \<Rightarrow> int \<Rightarrow> error + example list" where
  "align eval_examples eval_batch_size =
     (if eval_batch_size = 0 then Inl ZeroDivisionError
      else if int (length eval_examples) mod eval_batch_size \<noteq> 0
        then align (eval_examples @ [PaddingInputExample]) eval_batch_size
      else Inr eval_examples)"
  by pat_completeness auto
termination
proof (relation "measure (\<lambda>(E, b). nat ((- int (length E)) mod \<bar>b\<bar>))")
  show "wf (measure (\<lambda>(E, b). nat ((- int (length E)) mod \<bar>b\<bar>)))"
    by simp
next
  fix eval_examples :: "example list" and eval_batch_size :: int
  assume nz: "eval_batch_size \<noteq> 0"
    and rem: "int (length eval_examples) mod eval_batch_size \<noteq> 0"
  let ?n = "int (length eval_examples)" and ?m = "\<bar>eval_batch_size\<bar>"
  have mpos: "0 < ?m" using nz by simp
  have "\<not> eval_batch_size dvd ?n" using rem by (simp add: dvd_eq_mod_eq_0)
  then have ndvd: "\<not> ?m dvd (- ?n)" by simp
  then have pos: "0 < (- ?n) mod ?m"
    using mpos by (metis dvd_eq_mod_eq_0 less_le pos_mod_sign)
  have "(- ?n - 1) mod ?m = ((- ?n) mod ?m - 1) mod ?m"
    by (simp add: mod_diff_left_eq)
  also have "\<dots> = (- ?n) mod ?m - 1"
  proof (rule mod_pos_pos_trivial)
    show "0 \<le> (- ?n) mod ?m - 1" using pos by simp
    have "(- ?n) mod ?m < ?m" using mpos by (rule pos_mod_bound)
    then show "(- ?n) mod ?m - 1 < ?m" by simp
  qed
  finally have lt: "(- ?n - 1) mod ?m < (- ?n) mod ?m" by simp
  have e: "- int (length (eval_examples @ [PaddingInputExample])) = - ?n - 1"
    by simp
  have "nat ((- int (length (eval_examples @ [PaddingInputExample]))) mod ?m)
        < nat ((- ?n) mod ?m)"
    unfolding e zless_nat_conj using lt pos by blast
  then show "((eval_examples @ [PaddingInputExample], eval_batch_size),
              (eval_examples, eval_batch_size))
             \<in> measure (\<lambda>(E, b). nat ((- int (length E)) mod \<bar>b\<bar>))"
    by (simp only: in_measure prod.case)
qed

declare align.simps [simp del]

section \<open>Python helpers\<close>

text \<open>\<open>str(n)\<close> for a non-negative integer: its decimal digits.\<close>

fun str_nat :: "nat \<Rightarrow> string" where
  "str_nat n =
     (if n < 10 then [''0123456789'' ! n]
      else str_nat (n div 10) @ [''0123456789'' ! (n mod 10)])"

declare str_nat.simps [simp del]

text \<open>\<open>xs[i]\<close> on a list: a negative index counts from the end, out of range raises.\<close>

definition list_getitem :: "'a list \<Rightarrow> int \<Rightarrow> error + 'a" where
  "list_getitem xs i =
     (if 0 \<le> i \<and> i < int (length xs) then Inr (xs ! nat i)
      else if i < 0 \<and> - int (length xs) \<le> i then Inr (xs ! nat (int (length xs) + i))
      else Inl IndexError)"

text \<open>\<open>d[k]\<close> on a dict: a missing key raises.\<close>

definition dict_getitem :: "(string \<rightharpoonup> pyval) \<Rightarrow> string \<Rightarrow> error + pyval" where
  "dict_getitem d k = (case d k of None \<Rightarrow> Inl KeyError | Some v \<Rightarrow> Inr v)"

text \<open>Sequencing of two steps of which the first may raise.\<close>

definition bind_result :: "error + 'a \<Rightarrow> ('a \<Rightarrow> error + 'b) \<Rightarrow> error + 'b" where
  "bind_result r f = (case r of Inl e \<Rightarrow> Inl e | Inr v \<Rightarrow> f v)"

text \<open>
  The loop shape shared by every \<open>_create_examples\<close>:
  \<^verbatim>\<open>examples = []
for (i, line) in enumerate(lines):
    ...            # continue | raise | examples.append(x)
return examples\<close>
  The body yields \<open>Inl e\<close> when it raises, \<open>Inr None\<close> when it leaves the iteration
  without appending (\<open>continue\<close>, or an exception caught inside the body), and
  \<open>Inr (Some x)\<close> when it appends \<open>x\<close>.
\<close>

fun for_enumerate ::
  "(nat \<Rightarrow> 'a \<Rightarrow> error + 'b option) \<Rightarrow> nat \<Rightarrow> 'a list \<Rightarrow> 'b list \<Rightarrow> error + 'b list" where
  "for_enumerate body i [] examples = Inr examples"
| "for_enumerate body i (line # lines) examples =
     (case body i line of
        Inl e \<Rightarrow> Inl e
      | Inr None \<Rightarrow> for_enumerate body (Suc i) lines examples
      | Inr (Some x) \<Rightarrow> for_enumerate body (Suc i) lines (examples @ [x]))"

text \<open>\<open>convert_to_unicode\<close> under Python 3: a \<open>str\<close> is returned as it is; a value that
  is neither \<open>str\<close> nor \<open>bytes\<close> raises ValueError (JSON values are never \<open>bytes\<close>).\<close>

fun convert_to_unicode :: "pyval \<Rightarrow> error + pyval" where
  "convert_to_unicode (PStr s) = Inr (PStr s)"
| "convert_to_unicode _ = Inl ValueError"

section \<open>JSON-lines adapters of classifier_utils.py\<close>

text \<open>
  \<open>_read_json\<close> hands each adapter the list of objects that \<open>json.loads\<close> returned for
  the lines of the file; an object is a dict from field names to values.
\<close>

type_synonym json_line = "string \<rightharpoonup> pyval"

definition cu_Xnli_create_examples :: "json_line list \<Rightarrow> string \<Rightarrow> error + input_example list" where
  "cu_Xnli_create_examples lines set_type =
     for_enumerate (\<lambda>i line.
        bind_result (bind_result (dict_getitem line ''premise'') convert_to_unicode) (\<lambda>ta.
        bind_result (bind_result (dict_getitem line ''hypo'') convert_to_unicode) (\<lambda>tb.
        bind_result (if set_type \<noteq> ''test''
                     then bind_result (dict_getitem line ''label'') convert_to_unicode
                     else Inr (PStr ''contradiction'')) (\<lambda>l.
        Inr (Some \<lparr>guid = set_type @ ''-'' @ str_nat i, text_a = ta, text_b = tb, label = l\<rparr>)))))
       0 lines []"

definition cu_Tnews_get_labels :: "string list" where
  "cu_Tnews_get_labels =
     foldl (\<lambda>labels i. if i = 5 \<or> i = 11 then labels else labels @ [str_nat (100 + i)])
       [] [0..<17]"

definition cu_Tnews_create_examples :: "json_line list \<Rightarrow> string \<Rightarrow> error + input_example list" where
  "cu_Tnews_create_examples lines set_type =
     for_enumerate (\<lambda>i line.
        bind_result (bind_result (dict_getitem line ''sentence'') convert_to_unicode) (\<lambda>ta.
        bind_result (if set_type \<noteq> ''test''
                     then bind_result (dict_getitem line ''label'') convert_to_unicode
                     else Inr PNone) (\<lambda>l.
        Inr (Some \<lparr>guid = set_type @ ''-'' @ str_nat i, text_a = ta, text_b = PNone, label = l\<rparr>))))
       0 lines []"

definition cu_iFLYTEK_create_examples :: "json_line list \<Rightarrow> string \<Rightarrow> error + input_example list" where
  "cu_iFLYTEK_create_examples lines set_type =
     for_enumerate (\<lambda>i line.
        bind_result (bind_result (dict_getitem line ''sentence'') convert_to_unicode) (\<lambda>ta.
        bind_result (if set_type \<noteq> ''test''
                     then bind_result (dict_getitem line ''label'') convert_to_unicode
                     else Inr PNone) (\<lambda>l.
        Inr (Some \<lparr>guid = set_type @ ''-'' @ str_nat i, text_a = ta, text_b = PNone, label = l\<rparr>))))
       0 lines []"

definition cu_AFQMC_create_examples :: "json_line list \<Rightarrow> string \<Rightarrow> error + input_example list" where
  "cu_AFQMC_create_examples lines set_type =
     for_enumerate (\<lambda>i line.
        bind_result (bind_result (dict_getitem line ''sentence1'') convert_to_unicode) (\<lambda>ta.
        bind_result (bind_result (dict_getitem line ''sentence2'') convert_to_unicode) (\<lambda>tb.
        bind_result (if set_type \<noteq> ''test''
                     then bind_result (dict_getitem line ''label'') convert_to_unicode
                     else Inr (PStr ''0'')) (\<lambda>l.
        Inr (Some \<lparr>guid = set_type @ ''-'' @ str_nat i, text_a = ta, text_b = tb, label = l\<rparr>)))))
       0 lines []"

section \<open>JSON-lines adapters of run_classifier.py\<close>

text \<open>
  These adapters open \<open>\<langle>set_type\<rangle>.json\<close> themselves and call \<open>json.loads\<close> on each
  line inside the loop; \<open>lines\<close> is again the list of parsed objects. The fields are
  stored as they are, without \<open>convert_to_unicode\<close>.
\<close>

definition rc_Tnews_get_labels :: "string list" where
  "rc_Tnews_get_labels =
     foldl (\<lambda>labels i. if i = 5 \<or> i = 11 then labels else labels @ [str_nat (100 + i)])
       [] [0..<17]"

definition rc_Tnews_create_examples :: "json_line list \<Rightarrow> string \<Rightarrow> error + input_example list" where
  "rc_Tnews_create_examples lines set_type =
     for_enumerate (\<lambda>i line.
        bind_result (dict_getitem line ''sentence'') (\<lambda>ta.
        bind_result (if set_type \<noteq> ''test'' then dict_getitem line ''label'' else Inr PNone) (\<lambda>l.
        Inr (Some \<lparr>guid = set_type @ ''-'' @ str_nat i, text_a = ta, text_b = PNone, label = l\<rparr>))))
       0 lines []"

definition rc_iFLYTEK_create_examples :: "json_line list \<Rightarrow> string \<Rightarrow> error + input_example list" where
  "rc_iFLYTEK_create_examples lines set_type =
     for_enumerate (\<lambda>i line.
        bind_result (dict_getitem line ''sentence'') (\<lambda>ta.
        bind_result (if set_type \<noteq> ''test'' then dict_getitem line ''label'' else Inr PNone) (\<lambda>l.
        Inr (Some \<lparr>guid = set_type @ ''-'' @ str_nat i, text_a = ta, text_b = PNone, label = l\<rparr>))))
       0 lines []"

text \<open>\<open>XnliProcessor.get_test_examples\<close> builds the example without a \<open>label\<close> argument, so
  the constructor's default \<open>None\<close> is stored.\<close>

definition rc_Xnli_get_test_examples :: "json_line list \<Rightarrow> error + input_example list" where
  "rc_Xnli_get_test_examples lines =
     for_enumerate (\<lambda>i line.
        bind_result (dict_getitem line ''premise'') (\<lambda>ta.
        bind_result (dict_getitem line ''hypo'') (\<lambda>tb.
        Inr (Some \<lparr>guid = ''test-'' @ str_nat i, text_a = ta, text_b = tb, label = PNone\<rparr>))))
       0 lines []"

section \<open>Row-oriented adapters of run_classifier.py\<close>

text \<open>A row is the list of cells of one line (\<open>_read_txt\<close> splits on \<open>_!_\<close>, \<open>_read_tsv\<close>
  on tabs).\<close>

definition Inews_create_examples :: "string list list \<Rightarrow> string \<Rightarrow> error + input_example list" where
  "Inews_create_examples lines set_type =
     for_enumerate (\<lambda>i line.
        if i = 0 then Inr None
        else
          bind_result (list_getitem line 2) (\<lambda>ta.
          bind_result (list_getitem line 3) (\<lambda>tb.
          bind_result (if set_type = ''test'' then Inr ''0'' else list_getitem line 0) (\<lambda>l.
          Inr (Some \<lparr>guid = set_type @ ''-'' @ str_nat i, text_a = PStr ta, text_b = PStr tb,
                      label = PStr l\<rparr>)))))
       0 lines []"

definition THUCNews_create_examples :: "string list list \<Rightarrow> string \<Rightarrow> error + input_example list" where
  "THUCNews_create_examples lines set_type =
     for_enumerate (\<lambda>i line.
        if i = 0 \<or> length line < 3 then Inr None
        else
          bind_result (list_getitem line 3) (\<lambda>ta.
          bind_result (list_getitem line 0) (\<lambda>l.
          Inr (Some \<lparr>guid = set_type @ ''-'' @ str_nat i, text_a = PStr ta, text_b = PNone,
                      label = PStr l\<rparr>))))
       0 lines []"

text \<open>
  \<open>GLUEProcessor\<close>: the column attributes set by the constructor and the subclasses
  (\<open>None\<close> until a subclass sets them), and the label list of \<open>get_labels\<close>, which
  subclasses override. Comparing \<open>len(line)\<close> with \<open>None\<close> raises TypeError.
\<close>

record glue_processor =
  label_column :: "int option"
  text_a_column :: "int option"
  text_b_column :: "int option"
  contains_header :: bool
  test_text_a_column :: "int option"
  test_text_b_column :: "int option"
  test_contains_header :: bool
  get_labels :: "string list"

definition GLUE_create_examples ::
  "glue_processor \<Rightarrow> string list list \<Rightarrow> string \<Rightarrow> error + input_example list" where
  "GLUE_create_examples self lines set_type =
     for_enumerate (\<lambda>i line.
        if i = 0 \<and> contains_header self \<and> set_type \<noteq> ''test'' then Inr None
        else if i = 0 \<and> test_contains_header self \<and> set_type = ''test'' then Inr None
        else
          let a_column = (if set_type \<noteq> ''test'' then text_a_column self
                          else test_text_a_column self);
              b_column = (if set_type \<noteq> ''test'' then text_b_column self
                          else test_text_b_column self)
          in case a_column of
               None \<Rightarrow> Inl TypeError
             | Some a \<Rightarrow>
                 if int (length line) \<le> a then Inr None
                 else
                   bind_result (list_getitem line a) (\<lambda>ta.
                   bind_result
                     (case b_column of
                        None \<Rightarrow> Inr (Some PNone)
                      | Some b \<Rightarrow>
                          if int (length line) \<le> b then Inr None
                          else bind_result (list_getitem line b) (\<lambda>tb. Inr (Some (PStr tb))))
                     (\<lambda>tb_opt.
                        case tb_opt of
                          None \<Rightarrow> Inr None
                        | Some tb \<Rightarrow>
                            bind_result
                              (if set_type = ''test''
                               then bind_result (list_getitem (get_labels self) 0)
                                      (\<lambda>l. Inr (Some l))
                               else case label_column self of
                                      None \<Rightarrow> Inl TypeError
                                    | Some c \<Rightarrow>
                                        if int (length line) \<le> c then Inr None
                                        else bind_result (list_getitem line c)
                                               (\<lambda>l. Inr (Some l)))
                              (\<lambda>l_opt.
                                 case l_opt of
                                   None \<Rightarrow> Inr None
                                 | Some l \<Rightarrow>
                                     Inr (Some \<lparr>guid = set_type @ ''-'' @ str_nat i,
                                                 text_a = PStr ta, text_b = tb,
                                                 label = PStr l\<rparr>)))))
       0 lines []"

section \<open>The two \<open>_read_tsv\<close>\<close>

text \<open>
  Both open the file and iterate over \<open>csv.reader(f, delimiter=..., quotechar=quotechar)\<close>.
  The reader is Python's; it is a parameter here, from the delimiter, the quote character
  and the file to the rows it yields.
\<close>

definition cu_read_tsv ::
  "(char \<Rightarrow> char option \<Rightarrow> 'f \<Rightarrow> string list list) \<Rightarrow> 'f \<Rightarrow> char \<Rightarrow> char option
     \<Rightarrow> string list list" where
  "cu_read_tsv csv_reader input_file delimiter quotechar =
     foldl (\<lambda>lines line. lines @ [line]) [] (csv_reader delimiter quotechar input_file)"

definition rc_read_tsv ::
  "(char \<Rightarrow> char option \<Rightarrow> 'f \<Rightarrow> string list list) \<Rightarrow> 'f \<Rightarrow> char option
     \<Rightarrow> string list list" where
  "rc_read_tsv csv_reader input_file quotechar =
     foldl (\<lambda>lines line. if length line = 0 then lines else lines @ [line]) []
       (csv_reader (CHR 0x09) quotechar input_file)"

text \<open>
  What \<open>csv.reader\<close> yields for a text without quote characters and carriage returns:
  one row per line, the cells being the pieces between delimiters, and the empty row
  for an empty line.
\<close>

fun split_on :: "char \<Rightarrow> string \<Rightarrow> string list" where
  "split_on d [] = [[]]"
| "split_on d (c # cs) =
     (if c = d then [] # split_on d cs
      else case split_on d cs of [] \<Rightarrow> [[c]] | w # ws \<Rightarrow> (c # w) # ws)"

definition text_lines :: "string \<Rightarrow> string list" where
  "text_lines txt = (if txt = [] then [] else
     (let ls = split_on (CHR 0x0A) txt in if last ls = [] then butlast ls else ls))"

definition plain_csv_reader :: "char \<Rightarrow> char option \<Rightarrow> string \<Rightarrow> string list list" where
  "plain_csv_reader delimiter quotechar txt =
     map (\<lambda>l. if l = [] then [] else split_on delimiter l) (text_lines txt)"

section \<open>Features and the record container\<close>

text \<open>\<open>InputFeatures\<close>: the id, mask and segment sequences are integers; \<open>label_id\<close> is
  an integer (the index of the label) or, for regression, a float.\<close>

datatype label_id = LInt int | LFloat real

record input_features =
  input_ids :: "int list"
  input_mask :: "int list"
  segment_ids :: "int list"
  label_id :: label_id
  is_real_example :: bool

text \<open>
  A \<open>tf.train.Feature\<close> holds either an \<open>Int64List\<close> or a \<open>FloatList\<close>; a
  \<open>tf.train.Example\<close> is the ordered dict of its named features, and the record written
  for it is identified with it (\<open>SerializeToString\<close> loses nothing). \<open>Int64List\<close> refuses
  a value outside 64 bits and a float; \<open>FloatList\<close> narrows every value to 32 bits, by the
  parameter \<open>f32\<close>.
\<close>

datatype tf_feature = Int64List "int list" | FloatList "real list"

type_synonym tf_example = "(string \<times> tf_feature) list"

definition create_int_feature :: "int list \<Rightarrow> error + tf_feature" where
  "create_int_feature values =
     (if list_all (\<lambda>v. - (2 ^ 63) \<le> v \<and> v < 2 ^ 63) values then Inr (Int64List values)
      else Inl ValueError)"

definition create_float_feature :: "(real \<Rightarrow> real) \<Rightarrow> real list \<Rightarrow> error + tf_feature" where
  "create_float_feature f32 values = Inr (FloatList (map f32 values))"

text \<open>\<open>create_int_feature([feature.label_id])\<close> and \<open>float(feature.label_id)\<close>.\<close>

fun label_int_feature :: "label_id \<Rightarrow> error + tf_feature" where
  "label_int_feature (LInt v) = create_int_feature [v]"
| "label_int_feature (LFloat x) = Inl TypeError"

fun py_float :: "label_id \<Rightarrow> real" where
  "py_float (LInt v) = real_of_int v"
| "py_float (LFloat x) = x"

text \<open>The file system: the containers that exist, each with its records in order.\<close>

type_synonym file_system = "string \<rightharpoonup> tf_example list"

text \<open>
  What a writer call leaves behind: the caller's example list (which \<open>examples *= n\<close>
  changes in place), the file system, and the exception that ended the call, if any.
  When a call ends by an exception the container holds the records written until then.
\<close>

record outcome =
  examples_after :: "example list"
  fs_after :: file_system
  raised :: "error option"

section \<open>\<open>file_based_convert_examples_to_features\<close>\<close>

text \<open>The record built for one feature by the body of the loop.\<close>

definition feature_to_tf_example ::
  "(real \<Rightarrow> real) \<Rightarrow> string list option \<Rightarrow> input_features \<Rightarrow> error + tf_example" where
  "feature_to_tf_example f32 label_list feature =
     bind_result (create_int_feature (input_ids feature)) (\<lambda>ids.
     bind_result (create_float_feature f32 (map real_of_int (input_mask feature))) (\<lambda>mask.
     bind_result (create_int_feature (segment_ids feature)) (\<lambda>segs.
     bind_result (if label_list \<noteq> None then label_int_feature (label_id feature)
                  else create_float_feature f32 [py_float (label_id feature)]) (\<lambda>lab.
     bind_result (create_int_feature [if is_real_example feature then 1 else 0]) (\<lambda>real.
     Inr [(''input_ids'', ids), (''input_mask'', mask), (''segment_ids'', segs),
          (''label_ids'', lab), (''is_real_example'', real)])))))"

text \<open>
  The loop \<open>for (ex_index, example) in enumerate(examples)\<close>, with the records written
  so far. \<open>convert_single_example\<close> is imported from a module that is not among the
  sources: it is a parameter, called with the arguments the code passes.
\<close>

fun write_examples ::
  "(nat \<Rightarrow> example \<Rightarrow> string list option \<Rightarrow> int \<Rightarrow> 'tok \<Rightarrow> error + input_features)
     \<Rightarrow> (real \<Rightarrow> real) \<Rightarrow> string list option \<Rightarrow> int \<Rightarrow> 'tok
     \<Rightarrow> nat \<Rightarrow> example list \<Rightarrow> tf_example list \<Rightarrow> tf_example list \<times> error option" where
  "write_examples convert_single_example f32 label_list max_seq_length tokenize_fn
     ex_index [] written = (written, None)"
| "write_examples convert_single_example f32 label_list max_seq_length tokenize_fn
     ex_index (example # examples) written =
     (case bind_result
             (convert_single_example ex_index example label_list max_seq_length tokenize_fn)
             (feature_to_tf_example f32 label_list) of
        Inl e \<Rightarrow> (written, Some e)
      | Inr tf_example \<Rightarrow>
          write_examples convert_single_example f32 label_list max_seq_length tokenize_fn
            (Suc ex_index) examples (written @ [tf_example]))"

text \<open>\<open>examples *= num_passes\<close>, done only \<open>if num_passes > 1\<close>.\<close>

definition repeat_examples :: "'a list \<Rightarrow> int \<Rightarrow> 'a list" where
  "repeat_examples examples num_passes =
     (if num_passes > 1 then concat (replicate (nat num_passes) examples) else examples)"

definition file_based_convert_examples_to_features ::
  "(nat \<Rightarrow> example \<Rightarrow> string list option \<Rightarrow> int \<Rightarrow> 'tok \<Rightarrow> error + input_features)
     \<Rightarrow> (real \<Rightarrow> real) \<Rightarrow> bool \<Rightarrow> file_system
     \<Rightarrow> example list \<Rightarrow> string list option \<Rightarrow> int \<Rightarrow> 'tok \<Rightarrow> string \<Rightarrow> int \<Rightarrow> outcome" where
  "file_based_convert_examples_to_features convert_single_example f32 overwrite_data fs
     examples label_list max_seq_length tokenize_fn output_file num_passes =
     (if fs output_file \<noteq> None \<and> \<not> overwrite_data
      then \<lparr>examples_after = examples, fs_after = fs, raised = None\<rparr>
      else
        let examples' = repeat_examples examples num_passes;
            (written, exc) =
               write_examples convert_single_example f32 label_list max_seq_length tokenize_fn
                 0 examples' []
        in \<lparr>examples_after = examples', fs_after = fs(output_file \<mapsto> written), raised = exc\<rparr>)"

section \<open>\<open>file_based_convert_examples_to_features_for_inews\<close>\<close>

text \<open>Every field is written with \<open>create_int_feature\<close>, the mask included.\<close>

definition inews_feature_to_tf_example :: "input_features \<Rightarrow> error + tf_example" where
  "inews_feature_to_tf_example feature =
     bind_result (create_int_feature (input_ids feature)) (\<lambda>ids.
     bind_result (create_int_feature (input_mask feature)) (\<lambda>mask.
     bind_result (create_int_feature (segment_ids feature)) (\<lambda>segs.
     bind_result (label_int_feature (label_id feature)) (\<lambda>lab.
     bind_result (create_int_feature [if is_real_example feature then 1 else 0]) (\<lambda>real.
     Inr [(''input_ids'', ids), (''input_mask'', mask), (''segment_ids'', segs),
          (''label_ids'', lab), (''is_real_example'', real)])))))"

text \<open>The inner loop \<open>for feature in feature_list\<close>.\<close>

fun inews_write_feature_list ::
  "input_features list \<Rightarrow> tf_example list \<Rightarrow> tf_example list \<times> error option" where
  "inews_write_feature_list [] written = (written, None)"
| "inews_write_feature_list (feature # feature_list) written =
     (case inews_feature_to_tf_example feature of
        Inl e \<Rightarrow> (written, Some e)
      | Inr tf_example \<Rightarrow> inews_write_feature_list feature_list (written @ [tf_example]))"

text \<open>The outer loop; \<open>convert_example_list_for_inews\<close> is a parameter, as above.\<close>

fun inews_write_examples ::
  "(nat \<Rightarrow> example \<Rightarrow> string list option \<Rightarrow> int \<Rightarrow> 'tok \<Rightarrow> error + input_features list)
     \<Rightarrow> string list option \<Rightarrow> int \<Rightarrow> 'tok
     \<Rightarrow> nat \<Rightarrow> example list \<Rightarrow> tf_example list \<Rightarrow> tf_example list \<times> error option" where
  "inews_write_examples convert_example_list_for_inews label_list max_seq_length tokenizer
     ex_index [] written = (written, None)"
| "inews_write_examples convert_example_list_for_inews label_list max_seq_length tokenizer
     ex_index (example # examples) written =
     (case convert_example_list_for_inews ex_index example label_list max_seq_length tokenizer of
        Inl e \<Rightarrow> (written, Some e)
      | Inr feature_list \<Rightarrow>
          (case inews_write_feature_list feature_list written of
             (written', Some e) \<Rightarrow> (written', Some e)
           | (written', None) \<Rightarrow>
               inews_write_examples convert_example_list_for_inews label_list max_seq_length
                 tokenizer (Suc ex_index) examples written'))"

text \<open>The function opens the \<open>TFRecordWriter\<close> first, which creates the file or
  empties the one that exists, and tests nothing before.\<close>

definition file_based_convert_examples_to_features_for_inews ::
  "(nat \<Rightarrow> example \<Rightarrow> string list option \<Rightarrow> int \<Rightarrow> 'tok \<Rightarrow> error + input_features list)
     \<Rightarrow> file_system
     \<Rightarrow> example list \<Rightarrow> string list option \<Rightarrow> int \<Rightarrow> 'tok \<Rightarrow> string \<Rightarrow> int \<Rightarrow> outcome" where
  "file_based_convert_examples_to_features_for_inews convert_example_list_for_inews fs
     examples label_list max_seq_length tokenizer output_file num_passes =
     (let examples' = repeat_examples examples num_passes;
          (written, exc) =
             inews_write_examples convert_example_list_for_inews label_list max_seq_length
               tokenizer 0 examples' []
      in \<lparr>examples_after = examples', fs_after = fs(output_file \<mapsto> written), raised = exc\<rparr>)"

section \<open>The reader of \<open>file_based_input_fn_builder\<close>\<close>

datatype dtype = DT_INT64 | DT_FLOAT32

datatype feature_spec = FixedLenFeature "int list" dtype

text \<open>\<open>name_to_features\<close>, after the update made when \<open>FLAGS.is_regression\<close> is set.\<close>

definition name_to_features :: "int \<Rightarrow> bool \<Rightarrow> (string \<times> feature_spec) list" where
  "name_to_features seq_length is_regression =
     [(''input_ids'', FixedLenFeature [seq_length] DT_INT64),
      (''input_mask'', FixedLenFeature [seq_length] DT_FLOAT32),
      (''segment_ids'', FixedLenFeature [seq_length] DT_INT64),
      (''label_ids'', FixedLenFeature [] (if is_regression then DT_FLOAT32 else DT_INT64)),
      (''is_real_example'', FixedLenFeature [] DT_INT64)]"

text \<open>
  A decoded field: its values, of 64-bit integers, 32-bit integers or floats.
  \<open>tf.parse_single_example\<close> is TensorFlow's. For a \<open>FixedLenFeature\<close> without default
  value it requires the key to be in the record, the stored list to be of the declared
  type, and the number of stored values to be the product of the declared shape; it
  raises InvalidArgumentError otherwise.
\<close>

datatype tensor = Int64Tensor "int list" | Int32Tensor "int list" | FloatTensor "real list"

fun parse_feature :: "tf_feature option \<Rightarrow> feature_spec \<Rightarrow> error + tensor" where
  "parse_feature None spec = Inl InvalidArgumentError"
| "parse_feature (Some (Int64List vs)) (FixedLenFeature shape dt) =
     (if dt = DT_INT64 \<and> int (length vs) = prod_list shape then Inr (Int64Tensor vs)
      else Inl InvalidArgumentError)"
| "parse_feature (Some (FloatList vs)) (FixedLenFeature shape dt) =
     (if dt = DT_FLOAT32 \<and> int (length vs) = prod_list shape then Inr (FloatTensor vs)
      else Inl InvalidArgumentError)"

fun parse_single_example ::
  "tf_example \<Rightarrow> (string \<times> feature_spec) list \<Rightarrow> error + (string \<times> tensor) list" where
  "parse_single_example record [] = Inr []"
| "parse_single_example record ((name, spec) # specs) =
     bind_result (parse_feature (map_of record name) spec) (\<lambda>t.
     bind_result (parse_single_example record specs) (\<lambda>ts. Inr ((name, t) # ts)))"

text \<open>\<open>tf.cast(t, tf.int32)\<close> keeps the low 32 bits.\<close>

fun cast_to_int32 :: "tensor \<Rightarrow> tensor" where
  "cast_to_int32 (Int64Tensor vs) = Int32Tensor (map (\<lambda>v. sint (word_of_int v :: 32 word)) vs)"
| "cast_to_int32 t = t"

definition decode_record ::
  "tf_example \<Rightarrow> (string \<times> feature_spec) list \<Rightarrow> error + (string \<times> tensor) list" where
  "decode_record record name_to_features' =
     bind_result (parse_single_example record name_to_features') (\<lambda>example.
     Inr (map (\<lambda>(name, t). (name, cast_to_int32 t)) example))"

text \<open>
  The records that \<open>input_fn\<close> decodes when \<open>is_training\<close> is false: those of the
  container, in order and once, before they are grouped into batches.
\<close>

fun decode_all ::
  "(string \<times> feature_spec) list \<Rightarrow> tf_example list \<Rightarrow> error + (string \<times> tensor) list list" where
  "decode_all specs [] = Inr []"
| "decode_all specs (record # records) =
     bind_result (decode_record record specs) (\<lambda>d.
     bind_result (decode_all specs records) (\<lambda>ds. Inr (d # ds)))"

definition read_container ::
  "file_system \<Rightarrow> string \<Rightarrow> int \<Rightarrow> bool \<Rightarrow> error + (string \<times> tensor) list list" where
  "read_container fs input_file seq_length is_regression =
     (case fs input_file of
        None \<Rightarrow> Inl NotFoundError
      | Some records \<Rightarrow> decode_all (name_to_features seq_length is_regression) records)"

section \<open>Feature encoder\<close>

text \<open>
  Modelled from the spec: the feature encoder. run_classifier.py imports
  \<open>convert_single_example\<close> (with the truncation loop it uses) from the \<open>classifier_utils\<close>
  module beside it, which is not among the sources; the definitions of this section
  follow section 4.2 of the specification, steps 1 to 7.

  Step 4, the truncation loop for a pair: while the two lengths exceed the budget
  \<open>max_seq_length - reserved_slots\<close>, one token is removed from the longer sequence,
  from \<open>text_b\<close> when the lengths are equal; the token removed is the last one, so that
  what remains is a prefix. The specification does not say what happens when nothing is
  left to remove (a negative budget): the result is \<open>None\<close> then.
\<close>

function truncate_seq_pair :: "'a list \<Rightarrow> 'a list \<Rightarrow> int \<Rightarrow> ('a list \<times> 'a list) option" where
  "truncate_seq_pair text_a_tokens text_b_tokens budget =
     (if int (length text_a_tokens) + int (length text_b_tokens) \<le> budget
        then Some (text_a_tokens, text_b_tokens)
      else if length text_a_tokens > length text_b_tokens
        then truncate_seq_pair (butlast text_a_tokens) text_b_tokens budget
      else if text_b_tokens = [] then None
      else truncate_seq_pair text_a_tokens (butlast text_b_tokens) budget)"
  by pat_completeness auto
termination
  by (relation "measure (\<lambda>(a, b, m). length a + length b)") auto

declare truncate_seq_pair.simps [simp del]

text \<open>
  Modelled from the spec: the conventions that the specification leaves to configuration
  (section 4.2, steps 3, 5 and 6): the slots reserved for markers, the markers
  themselves, and the side on which padding is added. \<open>float_of_string\<close> is Python's
  \<open>float\<close> on a string, \<open>None\<close> where it raises.
\<close>

record encoder_config =
  reserved_single :: int
  reserved_pair :: int
  start_marker :: "int list"
  sep_marker :: "int list"
  end_marker :: "int list"
  pad_left :: bool
  float_of_string :: "string \<Rightarrow> real option"

text \<open>Modelled from the spec: the label vocabulary of section 3, an ordered sequence of
  label strings or, for regression, the indication that there are no discrete labels.\<close>

datatype label_vocab = Labels "string list" | Regression

text \<open>Modelled from the spec: step 7, the label id of a real example.\<close>

fun index_of :: "'a \<Rightarrow> 'a list \<Rightarrow> nat option" where
  "index_of x [] = None"
| "index_of x (y # ys) = (if x = y then Some 0 else map_option Suc (index_of x ys))"

fun encode_label :: "encoder_config \<Rightarrow> label_vocab \<Rightarrow> pyval \<Rightarrow> error + label_id" where
  "encode_label cfg Regression PNone = Inr (LFloat 0)"
| "encode_label cfg Regression (PFloat x) = Inr (LFloat x)"
| "encode_label cfg Regression (PInt v) = Inr (LFloat (real_of_int v))"
| "encode_label cfg Regression (PBool b) = Inr (LFloat (if b then 1 else 0))"
| "encode_label cfg Regression (PStr s) =
     (case float_of_string cfg s of None \<Rightarrow> Inl ValueError | Some x \<Rightarrow> Inr (LFloat x))"
| "encode_label cfg (Labels vocab) PNone = Inr (LInt 0)"
| "encode_label cfg (Labels vocab) (PStr s) =
     (case index_of s vocab of None \<Rightarrow> Inl LabelNotFoundError | Some k \<Rightarrow> Inr (LInt (int k)))"
| "encode_label cfg (Labels vocab) _ = Inl LabelNotFoundError"

text \<open>Modelled from the spec: steps 5 and 6, assembling and padding to \<open>max_seq_length\<close>.\<close>

definition pad_to :: "bool \<Rightarrow> int \<Rightarrow> int list \<Rightarrow> int list" where
  "pad_to left max_seq_length xs =
     (let padding = replicate (nat (max_seq_length - int (length xs))) 0
      in if left then padding @ xs else xs @ padding)"

definition assemble ::
  "encoder_config \<Rightarrow> int \<Rightarrow> int list \<Rightarrow> int list option \<Rightarrow> label_id \<Rightarrow> input_features" where
  "assemble cfg max_seq_length a b_opt lab =
     (let part_a = start_marker cfg @ a @ sep_marker cfg;
          part_b = (case b_opt of None \<Rightarrow> [] | Some b \<Rightarrow> b @ sep_marker cfg);
          token_ids = part_a @ part_b @ end_marker cfg;
          segments = replicate (length part_a) 0 @ replicate (length part_b) 1
                       @ replicate (length (end_marker cfg)) 0
      in \<lparr>input_ids = pad_to (pad_left cfg) max_seq_length token_ids,
          input_mask = pad_to (pad_left cfg) max_seq_length (replicate (length token_ids) 1),
          segment_ids = pad_to (pad_left cfg) max_seq_length segments,
          label_id = lab,
          is_real_example = True\<rparr>)"

text \<open>
  Modelled from the spec: \<open>encode(index, example, label_vocab, max_seq_length, tokenize)\<close>.
  The tokenizer is the external collaborator of section 6; it may fail. The first
  component of the result is the list of the texts handed to the tokenizer, in order.
  A pair that cannot be brought within its budget, for which the specification names
  no error, ends in ValueError.
\<close>

fun encode ::
  "encoder_config \<Rightarrow> nat \<Rightarrow> example \<Rightarrow> label_vocab \<Rightarrow> int \<Rightarrow> (string \<Rightarrow> int list option)
     \<Rightarrow> string list \<times> (error + input_features)" where
  "encode cfg index PaddingInputExample label_vocab max_seq_length tokenize =
     ([], Inr \<lparr>input_ids = replicate (nat max_seq_length) 0,
               input_mask = replicate (nat max_seq_length) 0,
               segment_ids = replicate (nat max_seq_length) 0,
               label_id = (case label_vocab of Regression \<Rightarrow> LFloat 0 | Labels vocab \<Rightarrow> LInt 0),
               is_real_example = False\<rparr>)"
| "encode cfg index (Example ex) label_vocab max_seq_length tokenize =
     (case text_a ex of
        PStr ta \<Rightarrow>
          (case tokenize ta of
             None \<Rightarrow> ([ta], Inl TokenizationError)
           | Some a \<Rightarrow>
               (case text_b ex of
                  PStr tb \<Rightarrow>
                    (case tokenize tb of
                       None \<Rightarrow> ([ta, tb], Inl TokenizationError)
                     | Some b \<Rightarrow>
                         ([ta, tb],
                          case truncate_seq_pair a b (max_seq_length - reserved_pair cfg) of
                            None \<Rightarrow> Inl ValueError
                          | Some (a', b') \<Rightarrow>
                              bind_result (encode_label cfg label_vocab (label ex))
                                (\<lambda>lab. Inr (assemble cfg max_seq_length a' (Some b') lab))))
                | PNone \<Rightarrow>
                    ([ta],
                     bind_result (encode_label cfg label_vocab (label ex))
                       (\<lambda>lab. Inr (assemble cfg max_seq_length
                                      (take (nat (max_seq_length - reserved_single cfg)) a)
                                      None lab)))
                | _ \<Rightarrow> ([ta], Inl TokenizationError)))
      | _ \<Rightarrow> ([], Inl TokenizationError))"

section \<open>Predicates on parsed lines\<close>

text \<open>A parsed line that has the field \<open>k\<close>, and one that has it with a string value.\<close>

definition has_field :: "string \<Rightarrow> json_line \<Rightarrow> bool" where
  "has_field k line = (case line k of None \<Rightarrow> False | Some v \<Rightarrow> True)"

definition has_text :: "string \<Rightarrow> json_line \<Rightarrow> bool" where
  "has_text k line = (case line k of Some (PStr s) \<Rightarrow> True | _ \<Rightarrow> False)"

section \<open>Properties of the batch aligner\<close>

lemma neg_mod_step:
  fixes m n :: int
  assumes "0 < m" "n mod m \<noteq> 0"
  shows "(- n) mod m = (- (n + 1)) mod m + 1"
proof -
  have "\<not> m dvd n" using assms(2) by (simp add: dvd_eq_mod_eq_0)
  then have "\<not> m dvd (- n)" by simp
  then have pos: "0 < (- n) mod m"
    using assms(1) by (metis dvd_eq_mod_eq_0 less_le pos_mod_sign)
  have "(- n - 1) mod m = ((- n) mod m - 1) mod m"
    by (simp add: mod_diff_left_eq)
  also have "\<dots> = (- n) mod m - 1"
  proof (rule mod_pos_pos_trivial)
    show "0 \<le> (- n) mod m - 1" using pos by simp
    have "(- n) mod m < m" using assms(1) by (rule pos_mod_bound)
    then show "(- n) mod m - 1 < m" by simp
  qed
  finally show ?thesis by simp
qed

text \<open>For a positive batch size the loop ends, having appended as many sentinels as
  the length was short of the next multiple.\<close>

lemma align_pos:
  "0 < b \<Longrightarrow>
   align E b = Inr (E @ replicate (nat ((- int (length E)) mod b)) PaddingInputExample)"
proof (induction E b rule: align.induct)
  case (1 E b)
  show ?case
  proof (cases "int (length E) mod b = 0")
    case True
    then have "(- int (length E)) mod b = 0"
      by (simp add: dvd_eq_mod_eq_0 [symmetric])
    with True "1.prems" show ?thesis
      by (simp add: align.simps [of E b])
  next
    case False
    let ?k = "(- (int (length E) + 1)) mod b"
    have k0: "0 \<le> ?k" using "1.prems" by simp
    have step: "(- int (length E)) mod b = ?k + 1"
      using neg_mod_step [OF "1.prems" False] .
    have "align E b = align (E @ [PaddingInputExample]) b"
      using False "1.prems" by (simp add: align.simps [of E b])
    also have "\<dots> = Inr ((E @ [PaddingInputExample]) @ replicate (nat ?k) PaddingInputExample)"
      using "1.IH" [OF _ False "1.prems"] "1.prems" by (simp add: add.commute)
    also have "\<dots> = Inr (E @ replicate (nat (?k + 1)) PaddingInputExample)"
      using k0 by (simp add: nat_add_distrib)
    finally show ?thesis using step by simp
  qed
qed

text \<open>
  Claim C1. For every example list \<open>E\<close> and every batch size \<open>b > 0\<close> the aligner returns
  a list whose length is a multiple of \<open>b\<close>, whose first \<open>len(E)\<close> elements are \<open>E\<close>
  itself, and whose remaining elements, fewer than \<open>b\<close>, are all padding sentinels:
  sentinels are only appended at the end.
\<close>

theorem align_pads_to_multiple:
  assumes "0 < b"
  shows "\<exists>r. align E b = Inr r \<and> int (length r) mod b = 0 \<and> take (length E) r = E
           \<and> int (length r - length E) < b
           \<and> drop (length E) r = replicate (length r - length E) PaddingInputExample"
proof -
  let ?k = "nat ((- int (length E)) mod b)"
  let ?r = "E @ replicate ?k PaddingInputExample"
  have r: "align E b = Inr ?r" using assms by (rule align_pos)
  have kb: "int ?k < b" using assms by simp
  have "int (length ?r) = int (length E) + (- int (length E)) mod b"
    using assms by simp
  then have "int (length ?r) mod b = (int (length E) + (- int (length E))) mod b"
    by (simp add: mod_add_right_eq)
  then have m: "int (length ?r) mod b = 0" by simp
  show ?thesis
    using r kb m by (intro exI [of _ ?r]) simp
qed

text \<open>Ten examples and a batch size of four.\<close>

theorem align_pads_to_multiple_witness:
  "(0::int) < 4 \<and>
   (\<exists>r. align (replicate 10 (Example \<lparr>guid = ''dev-0'', text_a = PStr ''a'', text_b = PNone,
                                          label = PStr ''0''\<rparr>)) 4 = Inr r
      \<and> int (length r) mod 4 = 0
      \<and> take 10 r = replicate 10 (Example \<lparr>guid = ''dev-0'', text_a = PStr ''a'',
                                                text_b = PNone, label = PStr ''0''\<rparr>)
      \<and> int (length r - 10) < 4
      \<and> drop 10 r = replicate (length r - 10) PaddingInputExample)"
  using align_pads_to_multiple
    [of 4 "replicate 10 (Example \<lparr>guid = ''dev-0'', text_a = PStr ''a'', text_b = PNone,
                                     label = PStr ''0''\<rparr>)"]
  by simp

section \<open>Properties of the feature encoder\<close>

text \<open>
  With a budget that is not negative the loop ends with prefixes of the two sequences.
  They fit the budget, exactly when something had to be removed; a sequence that lost
  a token is not the shorter one at the end (\<open>text_a\<close>), or is shorter by at most one
  (\<open>text_b\<close>, which loses the tie).
\<close>

lemma truncate_seq_pair_lengths:
  "0 \<le> budget \<Longrightarrow>
   \<exists>na nb. truncate_seq_pair a b budget = Some (take na a, take nb b)
     \<and> na \<le> length a \<and> nb \<le> length b
     \<and> int na + int nb \<le> budget
     \<and> (int (length a) + int (length b) \<le> budget \<longrightarrow> na = length a \<and> nb = length b)
     \<and> (budget < int (length a) + int (length b) \<longrightarrow> int na + int nb = budget)
     \<and> (na < length a \<longrightarrow> nb \<le> na)
     \<and> (nb < length b \<longrightarrow> na \<le> nb + 1)"
proof (induction a b budget rule: truncate_seq_pair.induct)
  case (1 a b budget)
  consider (fits) "int (length a) + int (length b) \<le> budget"
    | (cut_a) "\<not> int (length a) + int (length b) \<le> budget" "length b < length a"
    | (cut_b) "\<not> int (length a) + int (length b) \<le> budget" "\<not> length b < length a"
    by blast
  then show ?case
  proof cases
    case fits
    then have "truncate_seq_pair a b budget = Some (take (length a) a, take (length b) b)"
      by (simp add: truncate_seq_pair.simps [of a b])
    with fits show ?thesis by (intro exI [of _ "length a"] exI [of _ "length b"]) simp
  next
    case cut_a
    from "1.IH"(1) [OF cut_a "1.prems"]
    obtain na nb where r: "truncate_seq_pair (butlast a) b budget
          = Some (take na (butlast a), take nb b)"
      and b: "na \<le> length (butlast a)" "nb \<le> length b" "int na + int nb \<le> budget"
        "int (length (butlast a)) + int (length b) \<le> budget
           \<longrightarrow> na = length (butlast a) \<and> nb = length b"
        "budget < int (length (butlast a)) + int (length b) \<longrightarrow> int na + int nb = budget"
        "na < length (butlast a) \<longrightarrow> nb \<le> na" "nb < length b \<longrightarrow> na \<le> nb + 1"
      by blast
    have ane: "a \<noteq> []" using cut_a(2) by auto
    have na: "na < length a"
    proof -
      have "0 < length a" using ane by simp
      moreover have "na \<le> length a - 1" using b(1) by simp
      ultimately show ?thesis by arith
    qed
    have tk: "take na (butlast a) = take na a" using na by (rule take_butlast)
    have "truncate_seq_pair a b budget = Some (take na a, take nb b)"
      using cut_a r tk by (simp add: truncate_seq_pair.simps [of a b])
    moreover have "na \<le> length a" using na by simp
    moreover have "int na + int nb = budget"
      using b(4,5) cut_a(1) ane by (cases "int (length (butlast a)) + int (length b) \<le> budget")
        (auto simp: of_nat_diff)
    moreover have "nb \<le> na"
      using b(6) b(1,2) cut_a(2) by (cases "na < length (butlast a)") auto
    ultimately show ?thesis
      using b(2,7) cut_a(1) by (intro exI [of _ na] exI [of _ nb]) auto
  next
    case cut_b
    have bne: "b \<noteq> []" using cut_b "1.prems" by auto
    from "1.IH"(2) [OF cut_b bne "1.prems"]
    obtain na nb where r: "truncate_seq_pair a (butlast b) budget
          = Some (take na a, take nb (butlast b))"
      and b: "na \<le> length a" "nb \<le> length (butlast b)" "int na + int nb \<le> budget"
        "int (length a) + int (length (butlast b)) \<le> budget
           \<longrightarrow> na = length a \<and> nb = length (butlast b)"
        "budget < int (length a) + int (length (butlast b)) \<longrightarrow> int na + int nb = budget"
        "na < length a \<longrightarrow> nb \<le> na" "nb < length (butlast b) \<longrightarrow> na \<le> nb + 1"
      by blast
    have nb: "nb < length b"
    proof -
      have "0 < length b" using bne by simp
      moreover have "nb \<le> length b - 1" using b(2) by simp
      ultimately show ?thesis by arith
    qed
    have tk: "take nb (butlast b) = take nb b" using nb by (rule take_butlast)
    have "truncate_seq_pair a b budget = Some (take na a, take nb b)"
      using cut_b bne r tk by (simp add: truncate_seq_pair.simps [of a b])
    moreover have "nb \<le> length b" using nb by simp
    moreover have "int na + int nb = budget"
      using b(4,5) cut_b(1) bne by (cases "int (length a) + int (length (butlast b)) \<le> budget")
        (auto simp: of_nat_diff)
    moreover have "na \<le> nb + 1"
      using b(7) b(1,2) cut_b(2) by (cases "nb < length (butlast b)") auto
    ultimately show ?thesis
      using b(1,6) cut_b(1) by (intro exI [of _ na] exI [of _ nb]) auto
  qed
qed

text \<open>
  Claim C3. For every pair of token sequences the truncation loop leaves a pair that
  fits the budget \<open>max_seq_length - reserved_slots\<close> as it is and otherwise removes one
  token from the longer sequence, from \<open>text_b\<close> on a tie, and goes on; with a budget
  that is not negative it ends with prefixes of the two sequences that fit the budget,
  exactly so when anything was removed and balanced as the choice of the longer side
  implies. With lengths 100 and 5, three reserved slots and \<open>max_seq_length = 20\<close> the
  result has lengths 12 and 5.
\<close>

theorem truncate_seq_pair_removes_from_longer:
  "(int (length a) + int (length b) \<le> max_seq_length - reserved_slots \<longrightarrow>
      truncate_seq_pair a b (max_seq_length - reserved_slots) = Some (a, b))
   \<and> (max_seq_length - reserved_slots < int (length a) + int (length b) \<and> length b < length a \<longrightarrow>
      truncate_seq_pair a b (max_seq_length - reserved_slots)
        = truncate_seq_pair (butlast a) b (max_seq_length - reserved_slots))
   \<and> (max_seq_length - reserved_slots < int (length a) + int (length b) \<and> length a \<le> length b
        \<and> b \<noteq> [] \<longrightarrow>
      truncate_seq_pair a b (max_seq_length - reserved_slots)
        = truncate_seq_pair a (butlast b) (max_seq_length - reserved_slots))
   \<and> (reserved_slots \<le> max_seq_length \<longrightarrow>
       (\<exists>na nb. truncate_seq_pair a b (max_seq_length - reserved_slots)
                     = Some (take na a, take nb b)
          \<and> na \<le> length a \<and> nb \<le> length b
          \<and> int na + int nb \<le> max_seq_length - reserved_slots
          \<and> (max_seq_length - reserved_slots < int (length a) + int (length b)
               \<longrightarrow> int na + int nb = max_seq_length - reserved_slots)
          \<and> (na < length a \<longrightarrow> nb \<le> na)
          \<and> (nb < length b \<longrightarrow> na \<le> nb + 1)))
   \<and> (length a = 100 \<and> length b = 5 \<and> reserved_slots = 3 \<and> max_seq_length = 20
        \<longrightarrow> truncate_seq_pair a b (max_seq_length - reserved_slots) = Some (take 12 a, b))"
proof (intro conjI impI)
  assume "int (length a) + int (length b) \<le> max_seq_length - reserved_slots"
  then show "truncate_seq_pair a b (max_seq_length - reserved_slots) = Some (a, b)"
    by (simp add: truncate_seq_pair.simps [of a b])
next
  assume "max_seq_length - reserved_slots < int (length a) + int (length b)
          \<and> length b < length a"
  then show "truncate_seq_pair a b (max_seq_length - reserved_slots)
        = truncate_seq_pair (butlast a) b (max_seq_length - reserved_slots)"
    by (simp add: truncate_seq_pair.simps [of a b])
next
  assume "max_seq_length - reserved_slots < int (length a) + int (length b)
          \<and> length a \<le> length b \<and> b \<noteq> []"
  then show "truncate_seq_pair a b (max_seq_length - reserved_slots)
        = truncate_seq_pair a (butlast b) (max_seq_length - reserved_slots)"
    by (simp add: truncate_seq_pair.simps [of a b])
next
  assume "reserved_slots \<le> max_seq_length"
  then have nonneg: "0 \<le> max_seq_length - reserved_slots" by simp
  from truncate_seq_pair_lengths [OF nonneg, of a b]
  show "\<exists>na nb. truncate_seq_pair a b (max_seq_length - reserved_slots)
                     = Some (take na a, take nb b)
          \<and> na \<le> length a \<and> nb \<le> length b
          \<and> int na + int nb \<le> max_seq_length - reserved_slots
          \<and> (max_seq_length - reserved_slots < int (length a) + int (length b)
               \<longrightarrow> int na + int nb = max_seq_length - reserved_slots)
          \<and> (na < length a \<longrightarrow> nb \<le> na)
          \<and> (nb < length b \<longrightarrow> na \<le> nb + 1)"
    by blast
next
  assume h: "length a = 100 \<and> length b = 5 \<and> reserved_slots = 3 \<and> max_seq_length = 20"
  have "(0::int) \<le> 17" by simp
  from truncate_seq_pair_lengths [OF this, of a b]
  obtain na nb where r: "truncate_seq_pair a b 17 = Some (take na a, take nb b)"
    and b: "na \<le> length a" "nb \<le> length b"
      "17 < int (length a) + int (length b) \<longrightarrow> int na + int nb = 17"
      "nb < length b \<longrightarrow> na \<le> nb + 1"
    by blast
  have s: "int na + int nb = 17" using b(3) h by simp
  have "nb = 5" using b(2,4) s h by (cases "nb < 5") auto
  moreover from this have "na = 12" using s by simp
  ultimately have "truncate_seq_pair a b 17 = Some (take 12 a, b)"
    using r h by simp
  then show "truncate_seq_pair a b (max_seq_length - reserved_slots) = Some (take 12 a, b)"
    using h by simp
qed

text \<open>The instance of the specification, on two concrete sequences.\<close>

theorem truncate_seq_pair_removes_from_longer_witness:
  "(3::int) \<le> 20 \<and> length (replicate 100 (1::int)) = 100 \<and> length (replicate 5 (2::int)) = 5 \<and>
   truncate_seq_pair (replicate 100 (1::int)) (replicate 5 2) (20 - 3)
     = Some (replicate 12 1, replicate 5 2)"
proof -
  have "length (replicate 100 (1::int)) = 100 \<and> length (replicate 5 (2::int)) = 5
          \<and> (3::int) = 3 \<and> (20::int) = 20
        \<longrightarrow> truncate_seq_pair (replicate 100 (1::int)) (replicate 5 2) (20 - 3)
              = Some (take 12 (replicate 100 1), replicate 5 2)"
    using truncate_seq_pair_removes_from_longer
      [where reserved_slots = 3 and max_seq_length = 20 and a = "replicate 100 (1::int)"
         and b = "replicate 5 2"]
    by blast
  then show ?thesis by simp
qed

text \<open>A real example, in contrast, has its first text handed to the tokenizer.\<close>

lemma encode_real_example_tokenizes:
  "text_a ex = PStr ta \<Longrightarrow>
   hd (fst (encode cfg index (Example ex) label_vocab max_seq_length tokenize)) = ta
   \<and> fst (encode cfg index (Example ex) label_vocab max_seq_length tokenize) \<noteq> []"
  by (simp split: option.splits pyval.splits)

text \<open>
  Claim C4. For a padding example the encoder returns a feature whose token, mask and
  segment arrays are all zero (and of length \<open>max_seq_length\<close>), whose label id is 0
  (0.0 for regression) and whose \<open>is_real_example\<close> flag is false, whatever the
  tokenizer is, and no text is handed to the tokenizer.
\<close>

theorem encode_padding_example:
  "\<exists>f. encode cfg index PaddingInputExample label_vocab max_seq_length tokenize = ([], Inr f)
      \<and> length (input_ids f) = nat max_seq_length
      \<and> length (input_mask f) = nat max_seq_length
      \<and> length (segment_ids f) = nat max_seq_length
      \<and> input_ids f = replicate (nat max_seq_length) 0
      \<and> input_mask f = replicate (nat max_seq_length) 0
      \<and> segment_ids f = replicate (nat max_seq_length) 0
      \<and> label_id f = (if label_vocab = Regression then LFloat 0 else LInt 0)
      \<and> \<not> is_real_example f"
  by (cases label_vocab) simp_all

section \<open>Properties of the adapters\<close>

text \<open>A loop whose body appends on every line returns one example per line, in order.\<close>

lemma for_enumerate_appends:
  assumes "\<And>k x. x \<in> set xs \<Longrightarrow> body k x = Inr (Some (g k x))"
  shows "for_enumerate body i xs acc = Inr (acc @ map (\<lambda>(k, x). g k x) (enumerate i xs))"
  using assms by (induction xs arbitrary: i acc) simp_all

lemma bind_result_Inr: "bind_result (Inr v) f = f v"
  by (simp add: bind_result_def)

lemma bind_result_Inl: "bind_result (Inl e) f = Inl e"
  by (simp add: bind_result_def)

text \<open>Reading a field that is there does not raise.\<close>

lemma has_text_getitem:
  "has_text k line \<Longrightarrow>
   bind_result (dict_getitem line k) convert_to_unicode = Inr (the (line k))"
  by (auto simp: has_text_def bind_result_def dict_getitem_def split: option.splits pyval.splits)

lemma has_field_getitem:
  "has_field k line \<Longrightarrow> dict_getitem line k = Inr (the (line k))"
  by (auto simp: has_field_def dict_getitem_def split: option.splits)

lemma label_of_enumerate:
  "list_all (\<lambda>e. label e = l)
     (map (\<lambda>(k, x). \<lparr>guid = g k x, text_a = a k x, text_b = b k x, label = l\<rparr>) (enumerate i xs))"
  by (induction xs arbitrary: i) simp_all

text \<open>The test split of each JSON-lines adapter, on lines that have the text fields.\<close>

lemma cu_Tnews_test:
  assumes "list_all (has_text ''sentence'') lines"
  shows "cu_Tnews_create_examples lines ''test'' =
     Inr (map (\<lambda>(i, line). \<lparr>guid = ''test-'' @ str_nat i, text_a = the (line ''sentence''),
                               text_b = PNone, label = PNone\<rparr>) (enumerate 0 lines))"
  unfolding cu_Tnews_create_examples_def
  using assms
  by (subst for_enumerate_appends
        [where g = "\<lambda>i line. \<lparr>guid = ''test-'' @ str_nat i, text_a = the (line ''sentence''),
                               text_b = PNone, label = PNone\<rparr>"])
     (simp_all add: list_all_iff has_text_getitem bind_result_Inr)

lemma cu_iFLYTEK_test:
  assumes "list_all (has_text ''sentence'') lines"
  shows "cu_iFLYTEK_create_examples lines ''test'' =
     Inr (map (\<lambda>(i, line). \<lparr>guid = ''test-'' @ str_nat i, text_a = the (line ''sentence''),
                               text_b = PNone, label = PNone\<rparr>) (enumerate 0 lines))"
  unfolding cu_iFLYTEK_create_examples_def
  using assms
  by (subst for_enumerate_appends
        [where g = "\<lambda>i line. \<lparr>guid = ''test-'' @ str_nat i, text_a = the (line ''sentence''),
                               text_b = PNone, label = PNone\<rparr>"])
     (simp_all add: list_all_iff has_text_getitem bind_result_Inr)

lemma cu_Xnli_test:
  assumes "list_all (has_text ''premise'') lines" "list_all (has_text ''hypo'') lines"
  shows "cu_Xnli_create_examples lines ''test'' =
     Inr (map (\<lambda>(i, line). \<lparr>guid = ''test-'' @ str_nat i, text_a = the (line ''premise''),
                               text_b = the (line ''hypo''), label = PStr ''contradiction''\<rparr>)
            (enumerate 0 lines))"
  unfolding cu_Xnli_create_examples_def
  using assms
  by (subst for_enumerate_appends
        [where g = "\<lambda>i line. \<lparr>guid = ''test-'' @ str_nat i, text_a = the (line ''premise''),
                               text_b = the (line ''hypo''), label = PStr ''contradiction''\<rparr>"])
     (simp_all add: list_all_iff has_text_getitem bind_result_Inr)

lemma cu_AFQMC_test:
  assumes "list_all (has_text ''sentence1'') lines" "list_all (has_text ''sentence2'') lines"
  shows "cu_AFQMC_create_examples lines ''test'' =
     Inr (map (\<lambda>(i, line). \<lparr>guid = ''test-'' @ str_nat i, text_a = the (line ''sentence1''),
                               text_b = the (line ''sentence2''), label = PStr ''0''\<rparr>)
            (enumerate 0 lines))"
  unfolding cu_AFQMC_create_examples_def
  using assms
  by (subst for_enumerate_appends
        [where g = "\<lambda>i line. \<lparr>guid = ''test-'' @ str_nat i, text_a = the (line ''sentence1''),
                               text_b = the (line ''sentence2''), label = PStr ''0''\<rparr>"])
     (simp_all add: list_all_iff has_text_getitem bind_result_Inr)

lemma rc_Tnews_test:
  assumes "list_all (has_field ''sentence'') lines"
  shows "rc_Tnews_create_examples lines ''test'' =
     Inr (map (\<lambda>(i, line). \<lparr>guid = ''test-'' @ str_nat i, text_a = the (line ''sentence''),
                               text_b = PNone, label = PNone\<rparr>) (enumerate 0 lines))"
  unfolding rc_Tnews_create_examples_def
  using assms
  by (subst for_enumerate_appends
        [where g = "\<lambda>i line. \<lparr>guid = ''test-'' @ str_nat i, text_a = the (line ''sentence''),
                               text_b = PNone, label = PNone\<rparr>"])
     (simp_all add: list_all_iff has_field_getitem bind_result_Inr)

lemma rc_iFLYTEK_test:
  assumes "list_all (has_field ''sentence'') lines"
  shows "rc_iFLYTEK_create_examples lines ''test'' =
     Inr (map (\<lambda>(i, line). \<lparr>guid = ''test-'' @ str_nat i, text_a = the (line ''sentence''),
                               text_b = PNone, label = PNone\<rparr>) (enumerate 0 lines))"
  unfolding rc_iFLYTEK_create_examples_def
  using assms
  by (subst for_enumerate_appends
        [where g = "\<lambda>i line. \<lparr>guid = ''test-'' @ str_nat i, text_a = the (line ''sentence''),
                               text_b = PNone, label = PNone\<rparr>"])
     (simp_all add: list_all_iff has_field_getitem bind_result_Inr)

lemma rc_Xnli_test:
  assumes "list_all (has_field ''premise'') lines" "list_all (has_field ''hypo'') lines"
  shows "rc_Xnli_get_test_examples lines =
     Inr (map (\<lambda>(i, line). \<lparr>guid = ''test-'' @ str_nat i, text_a = the (line ''premise''),
                               text_b = the (line ''hypo''), label = PNone\<rparr>)
            (enumerate 0 lines))"
  unfolding rc_Xnli_get_test_examples_def
  using assms
  by (subst for_enumerate_appends
        [where g = "\<lambda>i line. \<lparr>guid = ''test-'' @ str_nat i, text_a = the (line ''premise''),
                               text_b = the (line ''hypo''), label = PNone\<rparr>"])
     (simp_all add: list_all_iff has_field_getitem bind_result_Inr)



text \<open>
  Claim C6, amended. For a test-split record without a label field no JSON-lines
  adapter raises on the missing field: on lines that have the text fields each adapter
  returns one example per line. The label of these examples is \<open>None\<close> for the Tnews
  and iFLYTEK adapters of both modules and for the Xnli adapter of run_classifier.py;
  it is the placeholder \<open>contradiction\<close> for the Xnli adapter of classifier_utils.py and
  the placeholder \<open>0\<close> for its AFQMC adapter.
\<close>

theorem json_adapters_test_label:
  "(list_all (has_text ''sentence'') lines \<longrightarrow>
      (\<exists>exs. cu_Tnews_create_examples lines ''test'' = Inr exs \<and> length exs = length lines
         \<and> list_all (\<lambda>e. label e = PNone) exs))
 \<and> (list_all (has_text ''sentence'') lines \<longrightarrow>
      (\<exists>exs. cu_iFLYTEK_create_examples lines ''test'' = Inr exs \<and> length exs = length lines
         \<and> list_all (\<lambda>e. label e = PNone) exs))
 \<and> (list_all (has_field ''sentence'') lines \<longrightarrow>
      (\<exists>exs. rc_Tnews_create_examples lines ''test'' = Inr exs \<and> length exs = length lines
         \<and> list_all (\<lambda>e. label e = PNone) exs))
 \<and> (list_all (has_field ''sentence'') lines \<longrightarrow>
      (\<exists>exs. rc_iFLYTEK_create_examples lines ''test'' = Inr exs \<and> length exs = length lines
         \<and> list_all (\<lambda>e. label e = PNone) exs))
 \<and> (list_all (has_field ''premise'') lines \<and> list_all (has_field ''hypo'') lines \<longrightarrow>
      (\<exists>exs. rc_Xnli_get_test_examples lines = Inr exs \<and> length exs = length lines
         \<and> list_all (\<lambda>e. label e = PNone) exs))
 \<and> (list_all (has_text ''premise'') lines \<and> list_all (has_text ''hypo'') lines \<longrightarrow>
      (\<exists>exs. cu_Xnli_create_examples lines ''test'' = Inr exs \<and> length exs = length lines
         \<and> list_all (\<lambda>e. label e = PStr ''contradiction'') exs))
 \<and> (list_all (has_text ''sentence1'') lines \<and> list_all (has_text ''sentence2'') lines \<longrightarrow>
      (\<exists>exs. cu_AFQMC_create_examples lines ''test'' = Inr exs \<and> length exs = length lines
         \<and> list_all (\<lambda>e. label e = PStr ''0'') exs))"
proof (intro conjI impI)
  assume "list_all (has_text ''sentence'') lines"
  then show "\<exists>exs. cu_Tnews_create_examples lines ''test'' = Inr exs \<and> length exs = length lines
         \<and> list_all (\<lambda>e. label e = PNone) exs"
    by (simp add: cu_Tnews_test label_of_enumerate)
next
  assume "list_all (has_text ''sentence'') lines"
  then show "\<exists>exs. cu_iFLYTEK_create_examples lines ''test'' = Inr exs \<and> length exs = length lines
         \<and> list_all (\<lambda>e. label e = PNone) exs"
    by (simp add: cu_iFLYTEK_test label_of_enumerate)
next
  assume "list_all (has_field ''sentence'') lines"
  then show "\<exists>exs. rc_Tnews_create_examples lines ''test'' = Inr exs \<and> length exs = length lines
         \<and> list_all (\<lambda>e. label e = PNone) exs"
    by (simp add: rc_Tnews_test label_of_enumerate)
next
  assume "list_all (has_field ''sentence'') lines"
  then show "\<exists>exs. rc_iFLYTEK_create_examples lines ''test'' = Inr exs \<and> length exs = length lines
         \<and> list_all (\<lambda>e. label e = PNone) exs"
    by (simp add: rc_iFLYTEK_test label_of_enumerate)
next
  assume "list_all (has_field ''premise'') lines \<and> list_all (has_field ''hypo'') lines"
  then show "\<exists>exs. rc_Xnli_get_test_examples lines = Inr exs \<and> length exs = length lines
         \<and> list_all (\<lambda>e. label e = PNone) exs"
    by (simp add: rc_Xnli_test label_of_enumerate)
next
  assume "list_all (has_text ''premise'') lines \<and> list_all (has_text ''hypo'') lines"
  then show "\<exists>exs. cu_Xnli_create_examples lines ''test'' = Inr exs \<and> length exs = length lines
         \<and> list_all (\<lambda>e. label e = PStr ''contradiction'') exs"
    by (simp add: cu_Xnli_test label_of_enumerate)
next
  assume "list_all (has_text ''sentence1'') lines \<and> list_all (has_text ''sentence2'') lines"
  then show "\<exists>exs. cu_AFQMC_create_examples lines ''test'' = Inr exs \<and> length exs = length lines
         \<and> list_all (\<lambda>e. label e = PStr ''0'') exs"
    by (simp add: cu_AFQMC_test label_of_enumerate)
qed

text \<open>One line that carries every text field and no label.\<close>

theorem json_adapters_test_label_witness:
  "list_all (has_text ''sentence'')
     [[''sentence'' \<mapsto> PStr ''c'', ''premise'' \<mapsto> PStr ''p'', ''hypo'' \<mapsto> PStr ''h'',
       ''sentence1'' \<mapsto> PStr ''s'', ''sentence2'' \<mapsto> PStr ''t'']]
   \<and> (\<exists>exs. cu_Tnews_create_examples
          [[''sentence'' \<mapsto> PStr ''c'', ''premise'' \<mapsto> PStr ''p'', ''hypo'' \<mapsto> PStr ''h'',
            ''sentence1'' \<mapsto> PStr ''s'', ''sentence2'' \<mapsto> PStr ''t'']] ''test'' = Inr exs
          \<and> length exs = 1 \<and> list_all (\<lambda>e. label e = PNone) exs)
   \<and> (\<exists>exs. cu_Xnli_create_examples
          [[''sentence'' \<mapsto> PStr ''c'', ''premise'' \<mapsto> PStr ''p'', ''hypo'' \<mapsto> PStr ''h'',
            ''sentence1'' \<mapsto> PStr ''s'', ''sentence2'' \<mapsto> PStr ''t'']] ''test'' = Inr exs
          \<and> length exs = 1 \<and> list_all (\<lambda>e. label e = PStr ''contradiction'') exs)"
  using json_adapters_test_label
    [of "[[''sentence'' \<mapsto> PStr ''c'', ''premise'' \<mapsto> PStr ''p'', ''hypo'' \<mapsto> PStr ''h'',
           ''sentence1'' \<mapsto> PStr ''s'', ''sentence2'' \<mapsto> PStr ''t'']]"]
  by (simp add: has_text_def has_field_def)

text \<open>The Xnli adapter of classifier_utils.py labels a test record \<open>contradiction\<close>.\<close>

theorem json_adapters_test_label_counterexample:
  "cu_Xnli_create_examples [[''premise'' \<mapsto> PStr ''p'', ''hypo'' \<mapsto> PStr ''h'']] ''test''
     = Inr [\<lparr>guid = ''test-0'', text_a = PStr ''p'', text_b = PStr ''h'',
             label = PStr ''contradiction''\<rparr>]
   \<and> [''premise'' \<mapsto> PStr ''p'', ''hypo'' \<mapsto> PStr ''h''] ''label'' = None
   \<and> PStr ''contradiction'' \<noteq> PNone"
  by (simp add: cu_Xnli_create_examples_def bind_result_def dict_getitem_def str_nat.simps)

text \<open>
  Claim C8. \<open>get_labels\<close> of the Tnews adapter (in both modules) is a constant: the
  fifteen strings \<open>str(100 + i)\<close> for \<open>i\<close> from 0 to 16 without 5 and 11, in that order;
  and on the test split a line without a label field yields an example whose label is
  \<open>None\<close>, not an exception.
\<close>

theorem Tnews_labels_and_test_label:
  "cu_Tnews_get_labels =
     [''100'', ''101'', ''102'', ''103'', ''104'', ''106'', ''107'', ''108'', ''109'', ''110'',
      ''112'', ''113'', ''114'', ''115'', ''116'']
   \<and> rc_Tnews_get_labels = cu_Tnews_get_labels
   \<and> length cu_Tnews_get_labels = 15
   \<and> cu_Tnews_get_labels
        = map (\<lambda>i. str_nat (100 + i)) (filter (\<lambda>i. i \<noteq> 5 \<and> i \<noteq> 11) [0..<17])
   \<and> (list_all (has_text ''sentence'') lines \<longrightarrow>
        (\<exists>exs. cu_Tnews_create_examples lines ''test'' = Inr exs \<and> length exs = length lines
           \<and> list_all (\<lambda>e. label e = PNone) exs))
   \<and> (list_all (has_field ''sentence'') lines \<longrightarrow>
        (\<exists>exs. rc_Tnews_create_examples lines ''test'' = Inr exs \<and> length exs = length lines
           \<and> list_all (\<lambda>e. label e = PNone) exs))"
proof (intro conjI impI)
  show l: "cu_Tnews_get_labels =
     [''100'', ''101'', ''102'', ''103'', ''104'', ''106'', ''107'', ''108'', ''109'', ''110'',
      ''112'', ''113'', ''114'', ''115'', ''116'']"
    by (simp add: cu_Tnews_get_labels_def upt_rec str_nat.simps)
  show "rc_Tnews_get_labels = cu_Tnews_get_labels"
    by (simp add: cu_Tnews_get_labels_def rc_Tnews_get_labels_def)
  show "length cu_Tnews_get_labels = 15"
    by (simp add: l)
  show "cu_Tnews_get_labels
        = map (\<lambda>i. str_nat (100 + i)) (filter (\<lambda>i. i \<noteq> 5 \<and> i \<noteq> 11) [0..<17])"
    unfolding l by (simp add: upt_rec str_nat.simps)
next
  assume "list_all (has_text ''sentence'') lines"
  then show "\<exists>exs. cu_Tnews_create_examples lines ''test'' = Inr exs \<and> length exs = length lines
         \<and> list_all (\<lambda>e. label e = PNone) exs"
    by (simp add: cu_Tnews_test label_of_enumerate)
next
  assume "list_all (has_field ''sentence'') lines"
  then show "\<exists>exs. rc_Tnews_create_examples lines ''test'' = Inr exs \<and> length exs = length lines
         \<and> list_all (\<lambda>e. label e = PNone) exs"
    by (simp add: rc_Tnews_test label_of_enumerate)
qed

text \<open>The third line of the scenario, \<open>{"sentence": "c"}\<close>, on the test split.\<close>

theorem Tnews_labels_and_test_label_witness:
  "list_all (has_text ''sentence'') [[''sentence'' \<mapsto> PStr ''c'']]
   \<and> list_all (has_field ''sentence'') [[''sentence'' \<mapsto> PStr ''c'']]
   \<and> (\<exists>exs. cu_Tnews_create_examples [[''sentence'' \<mapsto> PStr ''c'']] ''test'' = Inr exs
          \<and> length exs = 1 \<and> list_all (\<lambda>e. label e = PNone) exs)
   \<and> (\<exists>exs. rc_Tnews_create_examples [[''sentence'' \<mapsto> PStr ''c'']] ''test'' = Inr exs
          \<and> length exs = 1 \<and> list_all (\<lambda>e. label e = PNone) exs)"
  using Tnews_labels_and_test_label [of "[[''sentence'' \<mapsto> PStr ''c'']]"]
  by (simp add: has_text_def has_field_def)

section \<open>Properties of the row-oriented adapters\<close>

lemma for_enumerate_no_raise:
  assumes "\<And>k x. body k x \<noteq> Inl e"
  shows "for_enumerate body i xs acc \<noteq> Inl e"
  using assms by (induction xs arbitrary: i acc) (auto split: sum.splits option.splits)

lemma list_getitem_in_range:
  "0 \<le> c \<Longrightarrow> \<not> int (length xs) \<le> c \<Longrightarrow> list_getitem xs c = Inr (xs ! nat c)"
  by (simp add: list_getitem_def)

lemma list_getitem_last:
  assumes "xs \<noteq> []"
  shows "list_getitem xs (- 1) = Inr (last xs)"
proof -
  have "0 < length xs" using assms by simp
  then have "Suc 0 \<le> length xs" by arith
  then show ?thesis
    using assms by (simp add: list_getitem_def last_conv_nth nat_diff_distrib')
qed

text \<open>
  \<open>GLUEProcessor._create_examples\<close> compares the length of the row with every column
  before it reads the cell: with columns that are not negative (the label column may
  be \<open>-1\<close>, the last cell) and a label list that is not empty it never raises
  IndexError, whatever the rows are.
\<close>

lemma GLUE_create_examples_no_IndexError:
  assumes "\<And>a. text_a_column self = Some a \<Longrightarrow> 0 \<le> a"
    and "\<And>a. test_text_a_column self = Some a \<Longrightarrow> 0 \<le> a"
    and "\<And>b. text_b_column self = Some b \<Longrightarrow> 0 \<le> b"
    and "\<And>b. test_text_b_column self = Some b \<Longrightarrow> 0 \<le> b"
    and "\<And>c. label_column self = Some c \<Longrightarrow> - 1 \<le> c"
    and "get_labels self \<noteq> []"
  shows "GLUE_create_examples self lines set_type \<noteq> Inl IndexError"
  unfolding GLUE_create_examples_def
proof (rule for_enumerate_no_raise)
  fix k :: nat and line :: "string list"
  let ?a = "if set_type \<noteq> ''test'' then text_a_column self else test_text_a_column self"
  let ?b = "if set_type \<noteq> ''test'' then text_b_column self else test_text_b_column self"
  have a: "\<And>a. ?a = Some a \<Longrightarrow> 0 \<le> a" using assms(1,2) by (auto split: if_splits)
  have b: "\<And>b. ?b = Some b \<Longrightarrow> 0 \<le> b" using assms(3,4) by (auto split: if_splits)
  have lab0: "list_getitem (get_labels self) 0 = Inr (get_labels self ! 0)"
    using assms(6) by (simp add: list_getitem_def)
  have labc: "\<And>c a. label_column self = Some c \<Longrightarrow> \<not> int (length line) \<le> c
      \<Longrightarrow> \<not> int (length line) \<le> a \<Longrightarrow> 0 \<le> a
      \<Longrightarrow> list_getitem line c \<noteq> Inl IndexError"
  proof -
    fix c a :: int
    assume h: "label_column self = Some c" "\<not> int (length line) \<le> c"
      "\<not> int (length line) \<le> a" "0 \<le> a"
    then have ne: "line \<noteq> []" by auto
    have "c = - 1 \<or> 0 \<le> c" using assms(5) [OF h(1)] by arith
    then show "list_getitem line c \<noteq> Inl IndexError"
      using h(2) ne by (auto simp: list_getitem_in_range list_getitem_last)
  qed
  show "(if k = 0 \<and> contains_header self \<and> set_type \<noteq> ''test'' then Inr None
        else if k = 0 \<and> test_contains_header self \<and> set_type = ''test'' then Inr None
        else
          let a_column = (if set_type \<noteq> ''test'' then text_a_column self
                          else test_text_a_column self);
              b_column = (if set_type \<noteq> ''test'' then text_b_column self
                          else test_text_b_column self)
          in case a_column of
               None \<Rightarrow> Inl TypeError
             | Some a \<Rightarrow>
                 if int (length line) \<le> a then Inr None
                 else
                   bind_result (list_getitem line a) (\<lambda>ta.
                   bind_result
                     (case b_column of
                        None \<Rightarrow> Inr (Some PNone)
                      | Some b \<Rightarrow>
                          if int (length line) \<le> b then Inr None
                          else bind_result (list_getitem line b) (\<lambda>tb. Inr (Some (PStr tb))))
                     (\<lambda>tb_opt.
                        case tb_opt of
                          None \<Rightarrow> Inr None
                        | Some tb \<Rightarrow>
                            bind_result
                              (if set_type = ''test''
                               then bind_result (list_getitem (get_labels self) 0)
                                      (\<lambda>l. Inr (Some l))
                               else case label_column self of
                                      None \<Rightarrow> Inl TypeError
                                    | Some c \<Rightarrow>
                                        if int (length line) \<le> c then Inr None
                                        else bind_result (list_getitem line c)
                                               (\<lambda>l. Inr (Some l)))
                              (\<lambda>l_opt.
                                 case l_opt of
                                   None \<Rightarrow> Inr None
                                 | Some l \<Rightarrow>
                                     Inr (Some \<lparr>guid = set_type @ ''-'' @ str_nat k,
                                                 text_a = PStr ta, text_b = tb,
                                                 label = PStr l\<rparr>)))))
        \<noteq> Inl IndexError"
  proof (cases ?a)
    case None
    then show ?thesis by (simp add: Let_def)
  next
    case (Some a')
    note A = a [OF Some]
    show ?thesis
    proof (cases "int (length line) \<le> a'")
      case True
      then show ?thesis using Some by (simp add: Let_def)
    next
      case False
      note ga = list_getitem_in_range [OF A False]
      show ?thesis
      proof (cases ?b)
        case None
        then show ?thesis
          using Some False ga lab0 labc [OF _ _ False A]
          by (auto simp: Let_def bind_result_def split: option.splits sum.splits)
      next
        case (Some b')
        note B = b [OF Some]
        show ?thesis
        proof (cases "int (length line) \<le> b'")
          case True
          then show ?thesis using Some \<open>?a = Some a'\<close> False ga
            by (auto simp: Let_def bind_result_def split: option.splits sum.splits)
        next
          case Fb: False
          note gb = list_getitem_in_range [OF B Fb]
          show ?thesis
            using Some \<open>?a = Some a'\<close> False Fb ga gb lab0 labc [OF _ _ False A]
            by (auto simp: Let_def bind_result_def split: option.splits sum.splits)
        qed
      qed
    qed
  qed
qed

text \<open>
  \<open>THUCNewsProcessor._create_examples\<close> skips a row of fewer than three cells and goes
  on with the rows after it.
\<close>

lemma THUCNews_skips_rows_below_three:
  "THUCNews_create_examples
     [[''header''], [''0'', ''x''], [''1'', ''a'', ''b'', ''text'']] ''train''
   = Inr [\<lparr>guid = ''train-2'', text_a = PStr ''text'', text_b = PNone, label = PStr ''1''\<rparr>]"
  by (simp add: THUCNews_create_examples_def bind_result_def list_getitem_def str_nat.simps)

text \<open>\<open>InewsProcessor._create_examples\<close> reads the cells without any test of the
  length of the row.\<close>

lemma Inews_short_row_raises:
  "Inews_create_examples [[''header''], [''0'', ''id'', ''title'']] ''train'' = Inl IndexError"
  by (simp add: Inews_create_examples_def bind_result_def list_getitem_def)

text \<open>
  Claim C7 (evaluation of the code where it departs from the claim). A row of exactly
  three cells passes the test \<open>len(line) < 3\<close> of \<open>THUCNewsProcessor._create_examples\<close>,
  which then reads \<open>line[3]\<close>: IndexError ends the whole load, the row after it is
  never reached.
\<close>

theorem THUCNews_three_cell_row_raises:
  "THUCNews_create_examples
     [[''header''], [''0'', ''x'', ''y''], [''1'', ''a'', ''b'', ''text'']] ''train''
   = Inl IndexError"
  by (simp add: THUCNews_create_examples_def bind_result_def list_getitem_def)

section \<open>Properties of the two \<open>_read_tsv\<close>\<close>

lemma foldl_append_rows: "foldl (\<lambda>lines line. lines @ [line]) acc rows = acc @ rows"
  by (induction rows arbitrary: acc) simp_all

lemma foldl_append_nonempty_rows:
  "foldl (\<lambda>lines line. if line = [] then lines else lines @ [line]) acc rows
     = acc @ filter (\<lambda>line. line \<noteq> []) rows"
  by (induction rows arbitrary: acc) simp_all

text \<open>
  Claim C10, amended. On every file the \<open>_read_tsv\<close> of run_classifier.py returns the
  rows that the \<open>_read_tsv\<close> of classifier_utils.py returns (with its default delimiter),
  without the zero-length rows; the two agree on a file that has no zero-length row.
\<close>

theorem read_tsv_filters_empty_rows:
  "rc_read_tsv csv_reader input_file quotechar
     = filter (\<lambda>line. line \<noteq> []) (cu_read_tsv csv_reader input_file (CHR 0x09) quotechar)
   \<and> (list_all (\<lambda>line. line \<noteq> []) (csv_reader (CHR 0x09) quotechar input_file) \<longrightarrow>
        rc_read_tsv csv_reader input_file quotechar
          = cu_read_tsv csv_reader input_file (CHR 0x09) quotechar)"
proof (intro conjI impI)
  show f: "rc_read_tsv csv_reader input_file quotechar
     = filter (\<lambda>line. line \<noteq> []) (cu_read_tsv csv_reader input_file (CHR 0x09) quotechar)"
    by (simp add: rc_read_tsv_def cu_read_tsv_def foldl_append_rows foldl_append_nonempty_rows)
  assume "list_all (\<lambda>line. line \<noteq> []) (csv_reader (CHR 0x09) quotechar input_file)"
  then have "filter (\<lambda>line. line \<noteq> []) (csv_reader (CHR 0x09) quotechar input_file)
      = csv_reader (CHR 0x09) quotechar input_file"
    by (simp add: list_all_iff)
  then show "rc_read_tsv csv_reader input_file quotechar
          = cu_read_tsv csv_reader input_file (CHR 0x09) quotechar"
    by (simp add: f cu_read_tsv_def foldl_append_rows)
qed

text \<open>A file of two lines, \<open>a<TAB>b\<close> and \<open>c\<close>.\<close>

theorem read_tsv_filters_empty_rows_witness:
  "list_all (\<lambda>line. line \<noteq> [])
     (plain_csv_reader (CHR 0x09) None [CHR ''a'', CHR 0x09, CHR ''b'', CHR 0x0A, CHR ''c'', CHR 0x0A])
   \<and> rc_read_tsv plain_csv_reader [CHR ''a'', CHR 0x09, CHR ''b'', CHR 0x0A, CHR ''c'', CHR 0x0A] None
       = [[''a'', ''b''], [''c'']]
   \<and> cu_read_tsv plain_csv_reader [CHR ''a'', CHR 0x09, CHR ''b'', CHR 0x0A, CHR ''c'', CHR 0x0A]
        (CHR 0x09) None = [[''a'', ''b''], [''c'']]"
  using read_tsv_filters_empty_rows
    [of plain_csv_reader "[CHR ''a'', CHR 0x09, CHR ''b'', CHR 0x0A, CHR ''c'', CHR 0x0A]" None]
  by (simp add: plain_csv_reader_def text_lines_def cu_read_tsv_def)

text \<open>A file whose first line is empty: an empty line, then the line \<open>a\<close>.\<close>

theorem read_tsv_counterexample:
  "rc_read_tsv plain_csv_reader [CHR 0x0A, CHR ''a'', CHR 0x0A] None = [[''a'']]
   \<and> cu_read_tsv plain_csv_reader [CHR 0x0A, CHR ''a'', CHR 0x0A] (CHR 0x09) None = [[], [''a'']]
   \<and> rc_read_tsv plain_csv_reader [CHR 0x0A, CHR ''a'', CHR 0x0A] None
       \<noteq> cu_read_tsv plain_csv_reader [CHR 0x0A, CHR ''a'', CHR 0x0A] (CHR 0x09) None"
  by (simp add: rc_read_tsv_def cu_read_tsv_def plain_csv_reader_def text_lines_def)

section \<open>Properties of the writers\<close>

lemma length_concat_replicate: "length (concat (replicate n xs)) = n * length xs"
  by (induction n) simp_all

lemma nth_concat_replicate:
  "i < n * length xs \<Longrightarrow> concat (replicate n xs) ! i = xs ! (i mod length xs)"
proof (induction n arbitrary: i)
  case 0
  then show ?case by simp
next
  case (Suc n)
  show ?case
  proof (cases "i < length xs")
    case True
    then show ?thesis by (simp add: nth_append)
  next
    case False
    then have "i - length xs < n * length xs" using Suc.prems by simp
    from Suc.IH [OF this] False show ?thesis
      by (simp add: nth_append le_mod_geq)
  qed
qed

text \<open>
  When the loop of the writer ends without an exception it has added one record per
  example, in order: record \<open>k\<close> is the one built from the conversion of example \<open>k\<close>,
  called with index \<open>k\<close>.
\<close>

lemma write_examples_records:
  assumes "write_examples conv f32 label_list max_seq_length tok i xs acc = (records, None)"
  shows "length records = length acc + length xs \<and> take (length acc) records = acc
     \<and> (\<forall>k<length xs.
           bind_result (conv (i + k) (xs ! k) label_list max_seq_length tok)
             (feature_to_tf_example f32 label_list) = Inr (records ! (length acc + k)))"
  using assms
proof (induction xs arbitrary: i acc)
  case Nil
  then show ?case by simp
next
  case (Cons x xs)
  from Cons.prems obtain r where
    r: "bind_result (conv i x label_list max_seq_length tok)
          (feature_to_tf_example f32 label_list) = Inr r"
    and rest: "write_examples conv f32 label_list max_seq_length tok (Suc i) xs (acc @ [r])
                 = (records, None)"
    by (auto split: sum.splits)
  from Cons.IH [OF rest]
  have len: "length records = length (acc @ [r]) + length xs"
    and pre: "take (length (acc @ [r])) records = acc @ [r]"
    and nth: "\<forall>k<length xs.
           bind_result (conv (Suc i + k) (xs ! k) label_list max_seq_length tok)
             (feature_to_tf_example f32 label_list) = Inr (records ! (length (acc @ [r]) + k))"
    by blast+
  have pre': "take (length acc) records = acc"
  proof -
    have "take (length acc) (take (length (acc @ [r])) records) = take (length acc) (acc @ [r])"
      by (simp only: pre)
    then show ?thesis by (simp add: min_def)
  qed
  have r_at: "records ! length acc = r"
  proof -
    have "records ! length acc = take (length (acc @ [r])) records ! length acc"
      by simp
    also have "\<dots> = (acc @ [r]) ! length acc" by (simp only: pre)
    finally show ?thesis by simp
  qed
  have "\<forall>k<length (x # xs).
           bind_result (conv (i + k) ((x # xs) ! k) label_list max_seq_length tok)
             (feature_to_tf_example f32 label_list) = Inr (records ! (length acc + k))"
  proof (intro allI impI)
    fix k assume k: "k < length (x # xs)"
    show "bind_result (conv (i + k) ((x # xs) ! k) label_list max_seq_length tok)
             (feature_to_tf_example f32 label_list) = Inr (records ! (length acc + k))"
    proof (cases k)
      case 0
      then show ?thesis using r r_at by simp
    next
      case (Suc j)
      then have "j < length xs" using k by simp
      with nth Suc show ?thesis by simp
    qed
  qed
  with len pre' show ?case by simp
qed

text \<open>
  Claim C9, amended. When the writer is not stopped by its test for an existing
  container (no container at \<open>output_file\<close>, or \<open>FLAGS.overwrite_data\<close> set), the
  list it converts is the input list repeated \<open>num_passes\<close> times for
  \<open>num_passes > 1\<close> and the input list itself otherwise; when no conversion raises,
  the container holds one record per element of that list, so \<open>n * len(examples)\<close>
  records for \<open>n > 1\<close>, and record \<open>i\<close> comes from example \<open>i mod len(examples)\<close>: every
  pass repeats the examples in the same order.
\<close>

theorem num_passes_repeats_examples:
  assumes "fs output_file = None \<or> overwrite_data"
  shows "examples_after (file_based_convert_examples_to_features conv f32 overwrite_data fs
                           examples label_list max_seq_length tok output_file n)
           = (if 1 < n then concat (replicate (nat n) examples) else examples)
     \<and> (1 < n \<longrightarrow>
          length (examples_after (file_based_convert_examples_to_features conv f32
                    overwrite_data fs examples label_list max_seq_length tok output_file n))
            = nat n * length examples)
     \<and> (raised (file_based_convert_examples_to_features conv f32 overwrite_data fs
                  examples label_list max_seq_length tok output_file n) = None \<longrightarrow>
          (\<exists>records.
              fs_after (file_based_convert_examples_to_features conv f32 overwrite_data fs
                          examples label_list max_seq_length tok output_file n) output_file
                = Some records
            \<and> length records = (if 1 < n then nat n * length examples else length examples)
            \<and> (\<forall>i<length records.
                  bind_result (conv i (examples ! (i mod length examples)) label_list
                                 max_seq_length tok)
                    (feature_to_tf_example f32 label_list) = Inr (records ! i))))"
proof -
  let ?xs = "repeat_examples examples n"
  let ?W = "file_based_convert_examples_to_features conv f32 overwrite_data fs
              examples label_list max_seq_length tok output_file n"
  obtain written exc where
    w: "write_examples conv f32 label_list max_seq_length tok 0 ?xs [] = (written, exc)"
    by (cases "write_examples conv f32 label_list max_seq_length tok 0 ?xs []") blast
  have W: "?W = \<lparr>examples_after = ?xs, fs_after = fs(output_file \<mapsto> written), raised = exc\<rparr>"
    using assms w by (auto simp: file_based_convert_examples_to_features_def Let_def)
  have xs: "?xs = (if 1 < n then concat (replicate (nat n) examples) else examples)"
    by (simp add: repeat_examples_def)
  have len: "length ?xs = (if 1 < n then nat n * length examples else length examples)"
    by (simp add: xs length_concat_replicate)
  have nth: "?xs ! i = examples ! (i mod length examples)" if "i < length ?xs" for i
    using that by (auto simp: xs nth_concat_replicate length_concat_replicate split: if_splits)
  have c: "\<exists>records. fs_after ?W output_file = Some records
            \<and> length records = (if 1 < n then nat n * length examples else length examples)
            \<and> (\<forall>i<length records.
                  bind_result (conv i (examples ! (i mod length examples)) label_list
                                 max_seq_length tok)
                    (feature_to_tf_example f32 label_list) = Inr (records ! i))"
    if "raised ?W = None"
  proof -
    from that W have "exc = None" by simp
    with w have "write_examples conv f32 label_list max_seq_length tok 0 ?xs [] = (written, None)"
      by simp
    from write_examples_records [OF this]
    have l: "length written = length ?xs"
      and n: "\<forall>k<length ?xs.
           bind_result (conv k (?xs ! k) label_list max_seq_length tok)
             (feature_to_tf_example f32 label_list) = Inr (written ! k)"
      by simp_all
    have "\<forall>i<length written.
                  bind_result (conv i (examples ! (i mod length examples)) label_list
                                 max_seq_length tok)
                    (feature_to_tf_example f32 label_list) = Inr (written ! i)"
      using n nth l by simp
    then show ?thesis using W l len by (intro exI [of _ written]) simp
  qed
  have p1: "examples_after ?W = (if 1 < n then concat (replicate (nat n) examples) else examples)"
    using W xs by simp
  have p2: "1 < n \<longrightarrow> length (examples_after ?W) = nat n * length examples"
    using p1 by (simp add: length_concat_replicate)
  show ?thesis
    using p1 p2 c by blast
qed


text \<open>Two examples, two passes, a conversion that records the index it was called with.\<close>

theorem num_passes_repeats_examples_witness:
  "((Map.empty :: file_system) ''train.tf_record'' = None \<or> False)
   \<and> examples_after (file_based_convert_examples_to_features
          (\<lambda>i ex ll L tok. Inr \<lparr>input_ids = [int i], input_mask = [1], segment_ids = [0],
                                 label_id = LInt 0, is_real_example = (ex \<noteq> PaddingInputExample)\<rparr>)
          (\<lambda>x. x) False Map.empty
          [Example \<lparr>guid = ''train-0'', text_a = PStr ''a'', text_b = PNone, label = PStr ''100''\<rparr>,
           PaddingInputExample]
          (Some [''100'']) 1 () ''train.tf_record'' 2)
       = [Example \<lparr>guid = ''train-0'', text_a = PStr ''a'', text_b = PNone, label = PStr ''100''\<rparr>,
          PaddingInputExample,
          Example \<lparr>guid = ''train-0'', text_a = PStr ''a'', text_b = PNone, label = PStr ''100''\<rparr>,
          PaddingInputExample]
   \<and> (\<exists>records.
         fs_after (file_based_convert_examples_to_features
          (\<lambda>i ex ll L tok. Inr \<lparr>input_ids = [int i], input_mask = [1], segment_ids = [0],
                                 label_id = LInt 0, is_real_example = (ex \<noteq> PaddingInputExample)\<rparr>)
          (\<lambda>x. x) False Map.empty
          [Example \<lparr>guid = ''train-0'', text_a = PStr ''a'', text_b = PNone, label = PStr ''100''\<rparr>,
           PaddingInputExample]
          (Some [''100'']) 1 () ''train.tf_record'' 2) ''train.tf_record'' = Some records
         \<and> length records = 4)"
proof -
  let ?conv = "\<lambda>(i::nat) ex (ll::string list option) (L::int) (tok::unit).
      (Inr \<lparr>input_ids = [int i], input_mask = [1], segment_ids = [0],
            label_id = LInt 0, is_real_example = (ex \<noteq> PaddingInputExample)\<rparr>
         :: error + input_features)"
  let ?E = "[Example \<lparr>guid = ''train-0'', text_a = PStr ''a'', text_b = PNone, label = PStr ''100''\<rparr>,
           PaddingInputExample]"
  let ?W = "file_based_convert_examples_to_features ?conv (\<lambda>x. x) False Map.empty ?E
              (Some [''100'']) 1 () ''train.tf_record'' 2"
  have h: "(Map.empty :: file_system) ''train.tf_record'' = None \<or> False" by simp
  have r: "raised ?W = None"
    by (simp add: file_based_convert_examples_to_features_def repeat_examples_def
          feature_to_tf_example_def create_int_feature_def create_float_feature_def
          bind_result_def numeral_2_eq_2)
  note T = num_passes_repeats_examples
         [where fs = Map.empty and output_file = "''train.tf_record''"
            and overwrite_data = False and conv = ?conv and ?f32.0 = "\<lambda>x. x"
            and examples = ?E and label_list = "Some [''100'']" and max_seq_length = 1
            and tok = "()" and n = 2, OF h]
  have p1: "examples_after ?W = ?E @ ?E"
    using T by (simp add: numeral_2_eq_2)
  have p3: "\<exists>records. fs_after ?W ''train.tf_record'' = Some records \<and> length records = 4"
    using T r by auto
  show ?thesis using h p1 p3 by simp
qed

text \<open>
  With a container at the path and \<open>FLAGS.overwrite_data\<close> false the writer returns
  before it converts anything: the list is not repeated and the container keeps its one
  record, for \<open>num_passes = 2\<close> and two examples.
\<close>

theorem num_passes_counterexample:
  "(let fs = [''train.tf_record'' \<mapsto>
                [[(''input_ids'', Int64List [0]), (''input_mask'', FloatList [1]),
                  (''segment_ids'', Int64List [0]), (''label_ids'', Int64List [0]),
                  (''is_real_example'', Int64List [1])]]];
        examples = [Example \<lparr>guid = ''train-0'', text_a = PStr ''a'', text_b = PNone,
                             label = PStr ''100''\<rparr>, PaddingInputExample];
        result = file_based_convert_examples_to_features
          (\<lambda>i ex ll L tok. Inr \<lparr>input_ids = [int i], input_mask = [1], segment_ids = [0],
                                 label_id = LInt 0, is_real_example = (ex \<noteq> PaddingInputExample)\<rparr>)
          (\<lambda>x. x) False fs examples (Some [''100'']) 1 () ''train.tf_record'' 2
    in examples_after result = examples
     \<and> examples_after result \<noteq> examples @ examples
     \<and> raised result = None
     \<and> fs_after result ''train.tf_record'' = fs ''train.tf_record''
     \<and> map_option length (fs_after result ''train.tf_record'') = Some 1
     \<and> map_option length (fs_after result ''train.tf_record'') \<noteq> Some (2 * length examples))"
  by (simp add: file_based_convert_examples_to_features_def)

text \<open>The inews writer repeats its example list in the same way.\<close>

lemma inews_repeats_examples:
  "examples_after (file_based_convert_examples_to_features_for_inews conv fs examples
      label_list max_seq_length tok output_file n)
   = (if 1 < n then concat (replicate (nat n) examples) else examples)"
  by (simp add: file_based_convert_examples_to_features_for_inews_def repeat_examples_def
        Let_def split: prod.splits)

section \<open>Overwriting an existing container\<close>

text \<open>
  \<open>file_based_convert_examples_to_features\<close> leaves the file system as it is when the
  container exists and \<open>FLAGS.overwrite_data\<close> is false; after a call the container
  exists, so a second call without \<open>overwrite_data\<close> changes nothing, whatever it is
  given to convert.
\<close>

lemma file_based_convert_keeps_existing:
  "fs output_file \<noteq> None \<Longrightarrow>
   file_based_convert_examples_to_features conv f32 False fs examples label_list
     max_seq_length tok output_file n
   = \<lparr>examples_after = examples, fs_after = fs, raised = None\<rparr>"
  by (simp add: file_based_convert_examples_to_features_def)

lemma file_based_convert_creates:
  "fs_after (file_based_convert_examples_to_features conv f32 overwrite_data fs examples
     label_list max_seq_length tok output_file n) output_file \<noteq> None"
  by (auto simp: file_based_convert_examples_to_features_def Let_def split: prod.splits)

lemma file_based_convert_twice:
  "fs_after (file_based_convert_examples_to_features conv' f32' False
      (fs_after (file_based_convert_examples_to_features conv f32 overwrite_data fs examples
         label_list max_seq_length tok output_file n))
      examples' label_list' max_seq_length' tok' output_file n')
   = fs_after (file_based_convert_examples_to_features conv f32 overwrite_data fs examples
         label_list max_seq_length tok output_file n)"
  by (simp add: file_based_convert_keeps_existing [OF file_based_convert_creates])

text \<open>
  Claim C5 (evaluation of the code where it departs from the claim).
  \<open>file_based_convert_examples_to_features_for_inews\<close> has no test for an existing
  container and does not read \<open>FLAGS.overwrite_data\<close>: a second call on the same path
  replaces the container. Here the first call writes one record and the second, given
  two examples, leaves two records.
\<close>

theorem inews_writer_overwrites:
  "(let conv = (\<lambda>i ex ll L tok.
                  Inr [\<lparr>input_ids = [int i], input_mask = [1], segment_ids = [0],
                        label_id = LInt 0, is_real_example = False\<rparr>]);
        first = file_based_convert_examples_to_features_for_inews conv Map.empty
                  [PaddingInputExample] (Some [''0'', ''1'', ''2'']) 1 () ''eval.tf_record'' 1;
        second = file_based_convert_examples_to_features_for_inews conv (fs_after first)
                  [PaddingInputExample, PaddingInputExample] (Some [''0'', ''1'', ''2'']) 1 ()
                  ''eval.tf_record'' 1
    in fs_after first ''eval.tf_record''
         = Some [[(''input_ids'', Int64List [0]), (''input_mask'', Int64List [1]),
                  (''segment_ids'', Int64List [0]), (''label_ids'', Int64List [0]),
                  (''is_real_example'', Int64List [0])]]
     \<and> fs_after second ''eval.tf_record''
         = Some [[(''input_ids'', Int64List [0]), (''input_mask'', Int64List [1]),
                  (''segment_ids'', Int64List [0]), (''label_ids'', Int64List [0]),
                  (''is_real_example'', Int64List [0])],
                 [(''input_ids'', Int64List [1]), (''input_mask'', Int64List [1]),
                  (''segment_ids'', Int64List [0]), (''label_ids'', Int64List [0]),
                  (''is_real_example'', Int64List [0])]]
     \<and> fs_after second \<noteq> fs_after first)"
proof -
  let ?conv = "\<lambda>(i::nat) (ex::example) (ll::string list option) (L::int) (tok::unit).
      (Inr [\<lparr>input_ids = [int i], input_mask = [1], segment_ids = [0],
            label_id = LInt 0, is_real_example = False\<rparr>] :: error + input_features list)"
  let ?r0 = "[(''input_ids'', Int64List [0]), (''input_mask'', Int64List [1]),
                  (''segment_ids'', Int64List [0]), (''label_ids'', Int64List [0]),
                  (''is_real_example'', Int64List [0])]"
  let ?r1 = "[(''input_ids'', Int64List [1]), (''input_mask'', Int64List [1]),
                  (''segment_ids'', Int64List [0]), (''label_ids'', Int64List [0]),
                  (''is_real_example'', Int64List [0])]"
  let ?first = "file_based_convert_examples_to_features_for_inews ?conv Map.empty
                  [PaddingInputExample] (Some [''0'', ''1'', ''2'']) 1 () ''eval.tf_record'' 1"
  let ?second = "file_based_convert_examples_to_features_for_inews ?conv (fs_after ?first)
                  [PaddingInputExample, PaddingInputExample] (Some [''0'', ''1'', ''2'']) 1 ()
                  ''eval.tf_record'' 1"
  have f: "fs_after ?first ''eval.tf_record'' = Some [?r0]"
    by (simp add: file_based_convert_examples_to_features_for_inews_def repeat_examples_def
          inews_feature_to_tf_example_def create_int_feature_def bind_result_def)
  have s: "fs_after ?second ''eval.tf_record'' = Some [?r0, ?r1]"
    by (simp add: file_based_convert_examples_to_features_for_inews_def repeat_examples_def
          inews_feature_to_tf_example_def create_int_feature_def bind_result_def)
  have "fs_after ?second ''eval.tf_record'' \<noteq> fs_after ?first ''eval.tf_record''"
    unfolding f s by simp
  then have "fs_after ?second \<noteq> fs_after ?first" by metis
  with f s show ?thesis by (simp only: Let_def) blast
qed

section \<open>Reading back what the writers wrote\<close>

text \<open>Every failure of the decoder is an InvalidArgumentError.\<close>

lemma parse_feature_error: "parse_feature v spec = Inl e \<Longrightarrow> e = InvalidArgumentError"
  by (cases "(v, spec)" rule: parse_feature.cases) (auto split: if_splits)

lemma parse_single_example_error:
  "parse_single_example r specs = Inl e \<Longrightarrow> e = InvalidArgumentError"
proof (induction specs arbitrary: e)
  case Nil
  then show ?case by simp
next
  case (Cons p specs)
  obtain name spec where p: "p = (name, spec)" by (cases p)
  from Cons.prems show ?case
    unfolding p
    by (auto simp: bind_result_def split: sum.splits dest: parse_feature_error Cons.IH)
qed

text \<open>
  No record of the inews writer can be decoded with the schema of the reader: the
  record holds \<open>input_mask\<close> as an \<open>Int64List\<close>, the schema declares it \<open>tf.float32\<close>.
\<close>

lemma inews_record_not_decodable:
  assumes "inews_feature_to_tf_example feature = Inr r"
  shows "decode_record r (name_to_features seq_length is_regression) = Inl InvalidArgumentError"
proof -
  from assms obtain ids mask where
    r: "map_of r ''input_mask'' = Some (Int64List mask)"
    by (auto simp: inews_feature_to_tf_example_def bind_result_def create_int_feature_def
          split: sum.splits if_splits)
  have m: "parse_feature (map_of r ''input_mask'') (FixedLenFeature [seq_length] DT_FLOAT32)
        = Inl InvalidArgumentError"
    unfolding r by simp
  have "\<exists>e. parse_single_example r (name_to_features seq_length is_regression) = Inl e"
    using m by (auto simp: name_to_features_def bind_result_def split: sum.splits)
  then have "parse_single_example r (name_to_features seq_length is_regression)
      = Inl InvalidArgumentError"
    using parse_single_example_error by blast
  then show ?thesis by (simp add: decode_record_def bind_result_def)
qed

text \<open>
  The record of \<open>file_based_convert_examples_to_features\<close> for the same feature is
  decoded, when the narrowing to 32 bits keeps 0 and 1 (as it does).
\<close>

lemma float_mask_record_decodable:
  "read_container
     (fs_after (file_based_convert_examples_to_features
        (\<lambda>i ex ll L tok. Inr \<lparr>input_ids = [5, 0], input_mask = [1, 0], segment_ids = [0, 0],
                               label_id = LInt 2, is_real_example = True\<rparr>)
        (\<lambda>x. x) False Map.empty
        [Example \<lparr>guid = ''dev-0'', text_a = PStr ''a'', text_b = PStr ''b'', label = PStr ''2''\<rparr>]
        (Some [''0'', ''1'', ''2'']) 2 () ''eval.tf_record'' 1))
     ''eval.tf_record'' 2 False
   = Inr [[(''input_ids'', Int32Tensor [5, 0]), (''input_mask'', FloatTensor [1, 0]),
           (''segment_ids'', Int32Tensor [0, 0]), (''label_ids'', Int32Tensor [2]),
           (''is_real_example'', Int32Tensor [1])]]"
  by (simp add: file_based_convert_examples_to_features_def repeat_examples_def
        feature_to_tf_example_def create_int_feature_def create_float_feature_def
        bind_result_def read_container_def name_to_features_def decode_record_def)

text \<open>
  Claim C2 (evaluation of the code where it departs from the claim). The container
  that the inews writer produces for one feature of length two is written without an
  exception, and reading it back with the schema of \<open>file_based_input_fn_builder\<close>
  fails on the first record.
\<close>

theorem inews_container_not_readable:
  "(let written = file_based_convert_examples_to_features_for_inews
        (\<lambda>i ex ll L tok. Inr [\<lparr>input_ids = [5, 0], input_mask = [1, 0], segment_ids = [0, 0],
                                label_id = LInt 2, is_real_example = True\<rparr>])
        Map.empty
        [Example \<lparr>guid = ''dev-0'', text_a = PStr ''a'', text_b = PStr ''b'', label = PStr ''2''\<rparr>]
        (Some [''0'', ''1'', ''2'']) 2 () ''eval.tf_record'' 1
    in raised written = None
     \<and> fs_after written ''eval.tf_record''
         = Some [[(''input_ids'', Int64List [5, 0]), (''input_mask'', Int64List [1, 0]),
                  (''segment_ids'', Int64List [0, 0]), (''label_ids'', Int64List [2]),
                  (''is_real_example'', Int64List [1])]]
     \<and> read_container (fs_after written) ''eval.tf_record'' 2 False = Inl InvalidArgumentError)"
  by (simp add: file_based_convert_examples_to_features_for_inews_def repeat_examples_def
        inews_feature_to_tf_example_def create_int_feature_def
        bind_result_def read_container_def name_to_features_def decode_record_def)

end
